theory Spec2Isabelle
  imports Complex_Main
begin

section \<open>Parsed JSON documents and the Python operations applied to them\<close>

text \<open>
  Both converter scripts work on the value returned by \<^verbatim>\<open>json.load\<close>. That value is
  untyped, so it is modelled as it is: an object is the association list of its items in
  insertion order (a parsed \<^verbatim>\<open>dict\<close> has pairwise distinct keys), \<^verbatim>\<open>None\<close> is
  \<open>JNull\<close>, Python's unbounded integers are \<open>int\<close>. A \<open>char\<close> stands for one code
  point below 256.

  A number with a fraction or an exponent is a Python float. A finite float is given by
  its exact value, a rational, together with the text that \<^verbatim>\<open>repr\<close> prints for it;
  \<^verbatim>\<open>json.load\<close> also accepts \<^verbatim>\<open>Infinity\<close>, \<^verbatim>\<open>-Infinity\<close> and \<^verbatim>\<open>NaN\<close>.
\<close>

datatype pyfloat = Finite rat string | PosInf | NegInf | NaN

datatype json =
    JNull
  | JBool bool
  | JInt int
  | JFloat pyfloat
  | JStr string
  | JArr "json list"
  | JObj "(string \<times> json) list"

text \<open>
  The exceptions the scripts raise themselves carry their message; the ones raised by the
  interpreter on an ill-typed document (\<^verbatim>\<open>.get\<close> on a non-dict, \<^verbatim>\<open>len\<close> of a
  number, ...) are kept by class only.
\<close>

datatype error =
    FileNotFoundError string
  | ValueError string
  | IOError string
  | JSONDecodeError string
  | OSError
  | AttributeError
  | TypeError
  | KeyError
  | IndexError

text \<open>The \<^verbatim>\<open>print("Warning: ...")\<close> lines, in the order they are printed.\<close>

datatype warning =
    UsingFirstRecordSet json
  | NoClassesFound
  | NoBandsFound
  | NoFileListing
  | NoPairsFound
  | SkippingEntry nat
  | MissingRequiredFields "string list"

text \<open>Truth value testing (\<^verbatim>\<open>if x\<close>, \<^verbatim>\<open>not x\<close>, \<^verbatim>\<open>x or y\<close>).\<close>

fun float_nonzero :: "pyfloat \<Rightarrow> bool" where
  "float_nonzero (Finite q s) = (q \<noteq> 0)"
| "float_nonzero _ = True"

fun truthy :: "json \<Rightarrow> bool" where
  "truthy JNull = False"
| "truthy (JBool b) = b"
| "truthy (JInt i) = (i \<noteq> 0)"
| "truthy (JFloat f) = float_nonzero f"
| "truthy (JStr s) = (s \<noteq> [])"
| "truthy (JArr xs) = (xs \<noteq> [])"
| "truthy (JObj kvs) = (kvs \<noteq> [])"

definition py_or :: "json \<Rightarrow> json \<Rightarrow> json" where
  "py_or a b = (if truthy a then a else b)"

text \<open>\<^verbatim>\<open>d.get(k, default)\<close> on a dict, and on an arbitrary value.\<close>

definition dict_get :: "(string \<times> json) list \<Rightarrow> string \<Rightarrow> json \<Rightarrow> json" where
  "dict_get d k dflt = (case map_of d k of Some v \<Rightarrow> v | None \<Rightarrow> dflt)"

fun py_get :: "json \<Rightarrow> string \<Rightarrow> json \<Rightarrow> error + json" where
  "py_get (JObj d) k dflt = Inr (dict_get d k dflt)"
| "py_get _ k dflt = Inl AttributeError"

text \<open>\<^verbatim>\<open>for x in v\<close>: a dict yields its keys, a string its characters.\<close>

fun py_iter :: "json \<Rightarrow> error + json list" where
  "py_iter (JArr xs) = Inr xs"
| "py_iter (JObj kvs) = Inr (map (\<lambda>kv. JStr (fst kv)) kvs)"
| "py_iter (JStr s) = Inr (map (\<lambda>c. JStr [c]) s)"
| "py_iter _ = Inl TypeError"

fun py_len :: "json \<Rightarrow> error + nat" where
  "py_len (JArr xs) = Inr (length xs)"
| "py_len (JObj kvs) = Inr (length kvs)"
| "py_len (JStr s) = Inr (length s)"
| "py_len _ = Inl TypeError"

text \<open>\<^verbatim>\<open>v[i]\<close> for a non-negative integer index; no key of a parsed object is an integer.\<close>

fun py_item :: "json \<Rightarrow> nat \<Rightarrow> error + json" where
  "py_item (JArr xs) i = (if i < length xs then Inr (xs ! i) else Inl IndexError)"
| "py_item (JStr s) i = (if i < length s then Inr (JStr [s ! i]) else Inl IndexError)"
| "py_item (JObj kvs) i = Inl KeyError"
| "py_item _ i = Inl TypeError"

text \<open>
  A value used as a number: an integer (\<^verbatim>\<open>bool\<close> is a subclass of \<^verbatim>\<open>int\<close>) or a
  float. Anything else in a comparison with a number, or in \<^verbatim>\<open>min\<close> with one, raises
  \<^verbatim>\<open>TypeError\<close>.
\<close>

datatype number = NInt int | NFloat pyfloat

fun py_num :: "json \<Rightarrow> error + number" where
  "py_num (JInt i) = Inr (NInt i)"
| "py_num (JBool b) = Inr (NInt (if b then 1 else 0))"
| "py_num (JFloat f) = Inr (NFloat f)"
| "py_num _ = Inl TypeError"

text \<open>
  Python compares an integer with a float by their exact values; every comparison with
  \<^verbatim>\<open>nan\<close> is false.
\<close>

datatype extended = MinusInfinity | Rational rat | PlusInfinity | NotANumber

fun num_value :: "number \<Rightarrow> extended" where
  "num_value (NInt i) = Rational (of_int i)"
| "num_value (NFloat (Finite q s)) = Rational q"
| "num_value (NFloat PosInf) = PlusInfinity"
| "num_value (NFloat NegInf) = MinusInfinity"
| "num_value (NFloat NaN) = NotANumber"

fun ext_lt :: "extended \<Rightarrow> extended \<Rightarrow> bool" where
  "ext_lt NotANumber y = False"
| "ext_lt x NotANumber = False"
| "ext_lt (Rational a) (Rational b) = (a < b)"
| "ext_lt MinusInfinity MinusInfinity = False"
| "ext_lt MinusInfinity y = True"
| "ext_lt x MinusInfinity = False"
| "ext_lt PlusInfinity y = False"
| "ext_lt x PlusInfinity = True"

text \<open>\<^verbatim>\<open>a < b\<close>, \<^verbatim>\<open>a <= b\<close> and \<^verbatim>\<open>min(a, b)\<close>, which returns \<^verbatim>\<open>b\<close> only if \<^verbatim>\<open>b < a\<close>.\<close>

definition py_lt :: "number \<Rightarrow> number \<Rightarrow> bool" where
  "py_lt a b = ext_lt (num_value a) (num_value b)"

definition py_le :: "number \<Rightarrow> number \<Rightarrow> bool" where
  "py_le a b =
     (num_value a \<noteq> NotANumber \<and> num_value b \<noteq> NotANumber \<and> \<not> ext_lt (num_value b) (num_value a))"

definition py_min :: "number \<Rightarrow> number \<Rightarrow> number" where
  "py_min a b = (if py_lt b a then b else a)"

text \<open>The argument of \<^verbatim>\<open>range\<close>: an integer; a float is refused, whatever its value.\<close>

fun py_range_arg :: "number \<Rightarrow> error + int" where
  "py_range_arg (NInt i) = Inr i"
| "py_range_arg (NFloat f) = Inl TypeError"

text \<open>
  \<^verbatim>\<open>a + b\<close> where both scripts have it: \<^verbatim>\<open>train_images + val_images\<close> and
  \<^verbatim>\<open>train_annotations + val_annotations\<close>, whose results go straight to \<^verbatim>\<open>len\<close>
  (or to \<^verbatim>\<open>zip\<close>). Two lists and two strings are concatenated. Two numbers add up to
  a number, on which \<^verbatim>\<open>len\<close> and \<^verbatim>\<open>zip\<close> raise \<^verbatim>\<open>TypeError\<close>, and no statement
  between the addition and them prints anything or raises another exception: the model
  raises it at the addition. Every other pair of operands raises \<^verbatim>\<open>TypeError\<close> in
  Python too.
\<close>

fun py_add :: "json \<Rightarrow> json \<Rightarrow> error + json" where
  "py_add (JArr xs) (JArr ys) = Inr (JArr (xs @ ys))"
| "py_add (JStr s) (JStr t) = Inr (JStr (s @ t))"
| "py_add _ _ = Inl TypeError"

subsection \<open>Sequencing\<close>

text \<open>
  A statement that may raise is followed by the rest of the function only when it
  returns. A run of statements that also prints warnings yields the warnings printed so
  far together with its outcome.
\<close>

definition and_then :: "error + 'a \<Rightarrow> ('a \<Rightarrow> error + 'b) \<Rightarrow> error + 'b" where
  "and_then r f = (case r of Inl e \<Rightarrow> Inl e | Inr x \<Rightarrow> f x)"

type_synonym 'a run = "warning list \<times> (error + 'a)"

definition lift :: "error + 'a \<Rightarrow> 'a run" where
  "lift r = ([], r)"

definition run_then :: "'a run \<Rightarrow> ('a \<Rightarrow> 'b run) \<Rightarrow> 'b run" where
  "run_then m f =
     (case m of
        (ws, Inl e) \<Rightarrow> (ws, Inl e)
      | (ws, Inr x) \<Rightarrow> (case f x of (ws', r) \<Rightarrow> (ws @ ws', r)))"

subsection \<open>Strings\<close>

definition startswith :: "string \<Rightarrow> string \<Rightarrow> bool" where
  "startswith s p = (take (length p) s = p)"

text \<open>\<^verbatim>\<open>p in s\<close> for two strings.\<close>

fun str_contains :: "string \<Rightarrow> string \<Rightarrow> bool" where
  "str_contains p [] = (p = [])"
| "str_contains p (c # cs) = (startswith (c # cs) p \<or> str_contains p cs)"

text \<open>\<^verbatim>\<open>x in v\<close> for a string \<open>x\<close>.\<close>

fun py_contains :: "string \<Rightarrow> json \<Rightarrow> error + bool" where
  "py_contains x (JObj kvs) = Inr (x \<in> set (map fst kvs))"
| "py_contains x (JArr xs) = Inr (JStr x \<in> set xs)"
| "py_contains x (JStr s) = Inr (str_contains x s)"
| "py_contains x _ = Inl TypeError"

text \<open>\<^verbatim>\<open>str.lower\<close> on code points below 256.\<close>

definition lower_char :: "char \<Rightarrow> char" where
  "lower_char c =
     (let n = of_char c :: nat
      in if (65 \<le> n \<and> n \<le> 90) \<or> (192 \<le> n \<and> n \<le> 222 \<and> n \<noteq> 215)
         then char_of (n + 32) else c)"

definition lower :: "string \<Rightarrow> string" where
  "lower s = map lower_char s"

text \<open>\<^verbatim>\<open>str(n)\<close> for a non-negative and for an arbitrary integer.\<close>

definition digit_char :: "nat \<Rightarrow> char" where
  "digit_char n = char_of (48 + n)"

fun str_nat :: "nat \<Rightarrow> string" where
  "str_nat n = (if n < 10 then [digit_char n] else str_nat (n div 10) @ [digit_char (n mod 10)])"

definition str_int :: "int \<Rightarrow> string" where
  "str_int i = (if i < 0 then CHR ''-'' # str_nat (nat (- i)) else str_nat (nat i))"

text \<open>
  \<^verbatim>\<open>repr\<close> of a string: single quotes, unless the string has a single quote and no
  double quote; backslash, the quote, tab, newline and carriage return are escaped, every
  other non-printable code point is written \<^verbatim>\<open>\xhh\<close>.
\<close>

definition hex_char :: "nat \<Rightarrow> char" where
  "hex_char n = ''0123456789abcdef'' ! (n mod 16)"

definition printable :: "nat \<Rightarrow> bool" where
  "printable n = ((32 \<le> n \<and> n < 127) \<or> (161 \<le> n \<and> n \<noteq> 173))"

definition repr_char :: "char \<Rightarrow> char \<Rightarrow> string" where
  "repr_char quote c =
     (let n = of_char c :: nat
      in if c = quote \<or> n = 92 then [char_of (92::nat), c]
         else if n = 9 then [char_of (92::nat), CHR ''t'']
         else if n = 10 then [char_of (92::nat), CHR ''n'']
         else if n = 13 then [char_of (92::nat), CHR ''r'']
         else if printable n then [c]
         else [char_of (92::nat), CHR ''x'', hex_char (n div 16), hex_char n])"

definition repr_str :: "string \<Rightarrow> string" where
  "repr_str s =
     (let squote = char_of (39::nat); dquote = char_of (34::nat);
          quote = (if squote \<in> set s \<and> dquote \<notin> set s then dquote else squote)
      in quote # concat (map (repr_char quote) s) @ [quote])"

fun join :: "string \<Rightarrow> string list \<Rightarrow> string" where
  "join sep [] = []"
| "join sep [x] = x"
| "join sep (x # y # ys) = x @ sep @ join sep (y # ys)"

fun float_repr :: "pyfloat \<Rightarrow> string" where
  "float_repr (Finite q s) = s"
| "float_repr PosInf = ''inf''"
| "float_repr NegInf = ''-inf''"
| "float_repr NaN = ''nan''"

fun py_repr :: "json \<Rightarrow> string" where
  "py_repr JNull = ''None''"
| "py_repr (JBool b) = (if b then ''True'' else ''False'')"
| "py_repr (JInt i) = str_int i"
| "py_repr (JFloat f) = float_repr f"
| "py_repr (JStr s) = repr_str s"
| "py_repr (JArr xs) = ''['' @ join '', '' (map py_repr xs) @ '']''"
| "py_repr (JObj kvs) =
     ''{'' @ join '', '' (map (\<lambda>kv. repr_str (fst kv) @ '': '' @ py_repr (snd kv)) kvs) @ ''}''"

text \<open>\<^verbatim>\<open>str(v)\<close>, as an f-string applies it.\<close>

fun py_str :: "json \<Rightarrow> string" where
  "py_str (JStr s) = s"
| "py_str v = py_repr v"

section \<open>The TDML document\<close>

text \<open>
  The dictionaries the scripts build, one record per shape, the fields in the order of
  the dict literal. Values copied from the source document stay untyped (\<open>json\<close>).
\<close>

record task =
  task_type :: string
  task_id :: string
  task_name :: string
  task_description :: string
  inputType :: string
  outputType :: string
  taskType :: string

record class_dict =
  key :: string
  val :: json

record band_dict =
  band_name :: json
  band_description :: string
  wavelength :: json
  hlsBand :: json

record label =
  label_type :: string
  imageUrl :: "json list"
  imageFormat :: "string list"
  label_class :: string

record data_entry =
  entry_type :: string
  entry_id :: string
  dataUrl :: "json list"
  labels :: "label list"

record statistics =
  totalSamples :: json
  trainingSamples :: json
  validationSamples :: json

record tdml =
  tdml_type :: string
  tdml_id :: json
  name :: json
  description :: json
  license :: json
  providers :: "json list"
  createdTime :: json
  updatedTime :: json
  version :: json
  tasks :: "task list"
  classes :: "class_dict list"
  bands :: "band_dict list"
  data :: "data_entry list"
  amountOfTrainingData :: nat
  numberOfClasses :: nat
  dataStatistics :: statistics

section \<open>Metadata common to both scripts\<close>

text \<open>
  \<^verbatim>\<open>croissant_data.get('@id', '') or croissant_data.get('id', '') or 'hls_burn_scars_dataset'\<close>
\<close>

definition identifier_of :: "(string \<times> json) list \<Rightarrow> json" where
  "identifier_of d =
     py_or (dict_get d ''@id'' (JStr '''')) (py_or (dict_get d ''id'' (JStr ''''))
       (JStr ''hls_burn_scars_dataset''))"

text \<open>
  \<^verbatim>\<open>description = croissant_data.get('description', '')\<close>, replaced when falsy.
\<close>

definition description_of :: "(string \<times> json) list \<Rightarrow> json" where
  "description_of d =
     (let description = dict_get d ''description'' (JStr '''')
      in if \<not> truthy description then JStr ''No description provided.'' else description)"

text \<open>The license before any default: the first element of a list, the empty string for an empty list.\<close>

definition license_field :: "(string \<times> json) list \<Rightarrow> json" where
  "license_field d =
     (let lic = dict_get d ''license'' (JStr '''')
      in case lic of
           JArr xs \<Rightarrow> (case xs of [] \<Rightarrow> JStr '''' | x # _ \<Rightarrow> x)
         | _ \<Rightarrow> lic)"

text \<open>The providers collected from \<^verbatim>\<open>creator\<close>, before any default.\<close>

definition provider_name :: "(string \<times> json) list \<Rightarrow> json list" where
  "provider_name creator =
     (let n = dict_get creator ''name'' (JStr '''') in if truthy n then [n] else [])"

fun creator_providers :: "json \<Rightarrow> json list" where
  "creator_providers (JObj creator) = provider_name creator"
| "creator_providers (JStr s) = [JStr s]"
| "creator_providers _ = []"

definition creators_providers :: "(string \<times> json) list \<Rightarrow> json list" where
  "creators_providers d =
     (case dict_get d ''creator'' (JArr []) of
        JArr creators \<Rightarrow> concat (map creator_providers creators)
      | JObj creators \<Rightarrow> provider_name creators
      | _ \<Rightarrow> [])"

definition created_time :: "(string \<times> json) list \<Rightarrow> json" where
  "created_time d =
     (let t = py_or (dict_get d ''dateCreated'' (JStr '''')) (dict_get d ''created_time'' (JStr ''''))
      in if \<not> truthy t then JStr ''2025-01-17T00:00:00Z'' else t)"

definition updated_time :: "(string \<times> json) list \<Rightarrow> json" where
  "updated_time d =
     (let t = py_or (dict_get d ''dateModified'' (JStr '''')) (dict_get d ''updated_time'' (JStr ''''))
      in if \<not> truthy t then JStr ''2025-01-17T00:00:00Z'' else t)"

text \<open>
  \<^verbatim>\<open>data_stats = croissant_data.get('geocr:dataStatistics', {})\<close> and the three
  \<^verbatim>\<open>data_stats.get(..., 0)\<close>.
\<close>

definition data_statistics :: "(string \<times> json) list \<Rightarrow> error + statistics" where
  "data_statistics d =
     (case dict_get d ''geocr:dataStatistics'' (JObj []) of
        JObj data_stats \<Rightarrow>
          Inr \<lparr> totalSamples = dict_get data_stats ''totalSamples'' (JInt 0),
                trainingSamples = dict_get data_stats ''trainingSamples'' (JInt 0),
                validationSamples = dict_get data_stats ''validationSamples'' (JInt 0) \<rparr>
      | _ \<Rightarrow> Inl AttributeError)"

text \<open>The single task; the two scripts differ in the type tag only.\<close>

definition segmentation_task :: "string \<Rightarrow> task" where
  "segmentation_task ty =
     \<lparr> task_type = ty, task_id = ''task_0'', task_name = ''Burn Scar Segmentation'',
       task_description =
         ''Semantic segmentation of burn scars in satellite imagery using HLS data.'',
       inputType = ''image'', outputType = ''mask'', taskType = ''segmentation'' \<rparr>"

text \<open>One entry of \<^verbatim>\<open>data\<close>, with \<^verbatim>\<open>f"data_{i}"\<close> as its id.\<close>

definition make_data_entry :: "string \<Rightarrow> string \<Rightarrow> nat \<Rightarrow> json \<Rightarrow> json \<Rightarrow> data_entry" where
  "make_data_entry ety lty i img_url mask_url =
     \<lparr> entry_type = ety, entry_id = ''data_'' @ str_nat i, dataUrl = [img_url],
       labels = [\<lparr> label_type = lty, imageUrl = [mask_url],
                   imageFormat = [''image/tiff''], label_class = '''' \<rparr>] \<rparr>"

text \<open>
  \<^verbatim>\<open>all_images = train_images + val_images\<close> and
  \<^verbatim>\<open>all_annotations = train_annotations + val_annotations\<close>, with the six
  \<^verbatim>\<open>.get\<close> calls before them in the order of the source.
\<close>

definition all_images_annotations :: "json \<Rightarrow> error + json \<times> json" where
  "all_images_annotations file_listing =
     and_then (py_get file_listing ''images'' (JObj [])) (\<lambda>images.
     and_then (py_get file_listing ''annotations'' (JObj [])) (\<lambda>annotations.
     and_then (py_get images ''train'' (JArr [])) (\<lambda>train_images.
     and_then (py_get annotations ''train'' (JArr [])) (\<lambda>train_annotations.
     and_then (py_get images ''val'' (JArr [])) (\<lambda>val_images.
     and_then (py_get annotations ''val'' (JArr [])) (\<lambda>val_annotations.
     and_then (py_add train_images val_images) (\<lambda>all_images.
     and_then (py_add train_annotations val_annotations) (\<lambda>all_annotations.
     Inr (all_images, all_annotations)))))))))"

text \<open>One band descriptor from a \<^verbatim>\<open>band_info\<close> dict and the default band name.\<close>

definition make_band :: "string \<Rightarrow> json \<Rightarrow> error + band_dict" where
  "make_band default_name band_info =
     (case band_info of
        JObj bi \<Rightarrow>
          (let bname = dict_get bi ''name'' (JStr default_name);
               wl = dict_get bi ''wavelength'' (JStr '''');
               hls_band = dict_get bi ''hlsBand'' (JStr '''')
           in Inr \<lparr> band_name = bname,
                    band_description = py_str bname @ '' band ('' @ py_str hls_band @ '')'',
                    wavelength = wl, hlsBand = hls_band \<rparr>)
      | _ \<Rightarrow> Inl AttributeError)"


section \<open>The converter in \<^verbatim>\<open>GeoCroissant to OGC-TDML/\<close>\<close>

subsection \<open>Main record set\<close>

text \<open>
  \<^verbatim>\<open>rs.get('name') == 'hls_burn_scars' or 'hls' in rs.get('name', '').lower()\<close>:
  the second operand is evaluated only when the first is false, and \<^verbatim>\<open>.lower\<close> exists
  on strings only.
\<close>

fun py_lower :: "json \<Rightarrow> error + string" where
  "py_lower (JStr s) = Inr (lower s)"
| "py_lower _ = Inl AttributeError"

definition is_main_record_set :: "json \<Rightarrow> error + bool" where
  "is_main_record_set rs =
     and_then (py_get rs ''name'' JNull) (\<lambda>n.
     if n = JStr ''hls_burn_scars'' then Inr True
     else and_then (py_get rs ''name'' (JStr '''')) (\<lambda>n'.
          and_then (py_lower n') (\<lambda>l. Inr (str_contains ''hls'' l))))"

text \<open>The \<^verbatim>\<open>for rs in record_sets\<close> loop with its \<^verbatim>\<open>break\<close>; \<open>JNull\<close> is the initial \<^verbatim>\<open>None\<close>.\<close>

fun find_main_record_set :: "json list \<Rightarrow> error + json" where
  "find_main_record_set [] = Inr JNull"
| "find_main_record_set (rs # rest) =
     (case is_main_record_set rs of
        Inl e \<Rightarrow> Inl e
      | Inr m \<Rightarrow> if m then Inr rs else find_main_record_set rest)"

definition main_record_set :: "(string \<times> json) list \<Rightarrow> json run" where
  "main_record_set d =
     (let record_sets = dict_get d ''recordSet'' (JArr [])
      in run_then (lift (and_then (py_iter record_sets) find_main_record_set)) (\<lambda>found.
         run_then
           (if \<not> truthy found \<and> truthy record_sets
            then run_then (lift (py_item record_sets 0)) (\<lambda>first.
                 run_then (lift (py_get first ''name'' (JStr ''unknown''))) (\<lambda>n.
                 ([UsingFirstRecordSet n], Inr first)))
            else ([], Inr found)) (\<lambda>main.
         if \<not> truthy main
         then ([], Inl (ValueError ''Could not find any recordSet in the GeoCroissant data''))
         else ([], Inr main))))"

subsection \<open>Bands from \<^verbatim>\<open>geocr:sensorCharacteristics\<close>\<close>

fun py_items :: "json \<Rightarrow> error + (string \<times> json) list" where
  "py_items (JObj kvs) = Inr kvs"
| "py_items _ = Inl AttributeError"

text \<open>The loop over \<^verbatim>\<open>band_config.items()\<close>; the default name is \<^verbatim>\<open>f'Band {band_key}'\<close>.\<close>

fun band_config_bands :: "(string \<times> json) list \<Rightarrow> error + band_dict list" where
  "band_config_bands [] = Inr []"
| "band_config_bands ((band_key, band_info) # rest) =
     (if startswith band_key ''band''
      then (case make_band (''Band '' @ band_key) band_info of
              Inl e \<Rightarrow> Inl e
            | Inr b \<Rightarrow> (case band_config_bands rest of
                          Inl e \<Rightarrow> Inl e
                        | Inr bs \<Rightarrow> Inr (b # bs)))
      else band_config_bands rest)"

definition sensor_bands :: "(string \<times> json) list \<Rightarrow> error + band_dict list" where
  "sensor_bands d =
     (let sensor_characteristics = dict_get d ''geocr:sensorCharacteristics'' (JArr [])
      in if \<not> truthy sensor_characteristics then Inr []
         else and_then (py_len sensor_characteristics) (\<lambda>n.
              if 0 < n
              then and_then (py_item sensor_characteristics 0) (\<lambda>first.
                   and_then (py_get first ''bandConfiguration'' (JObj [])) (\<lambda>band_config.
                   if truthy band_config
                   then and_then (py_items band_config) band_config_bands
                   else Inr []))
              else Inr []))"

definition default_bands :: "band_dict list" where
  "default_bands =
     [\<lparr> band_name = JStr ''Blue'', band_description = ''Blue band (B02)'',
        wavelength = JStr ''490nm'', hlsBand = JStr ''B02'' \<rparr>,
      \<lparr> band_name = JStr ''Green'', band_description = ''Green band (B03)'',
        wavelength = JStr ''560nm'', hlsBand = JStr ''B03'' \<rparr>,
      \<lparr> band_name = JStr ''Red'', band_description = ''Red band (B04)'',
        wavelength = JStr ''665nm'', hlsBand = JStr ''B04'' \<rparr>,
      \<lparr> band_name = JStr ''NIR'', band_description = ''NIR band (B8A)'',
        wavelength = JStr ''865nm'', hlsBand = JStr ''B8A'' \<rparr>,
      \<lparr> band_name = JStr ''SW1'', band_description = ''SW1 band (B11)'',
        wavelength = JStr ''1610nm'', hlsBand = JStr ''B11'' \<rparr>,
      \<lparr> band_name = JStr ''SW2'', band_description = ''SW2 band (B12)'',
        wavelength = JStr ''2190nm'', hlsBand = JStr ''B12'' \<rparr>]"

subsection \<open>Classes from \<^verbatim>\<open>geocr:mlTask\<close>\<close>

definition class_mapping :: "(string \<times> string) list" where
  "class_mapping = [(''NotBurned'', ''0''), (''BurnScar'', ''1''), (''NoData'', ''-1'')]"

text \<open>
  \<^verbatim>\<open>class_mapping.get(class_name, str(len(classes)))\<close>: a list or a dict is not
  hashable; any other value that is not a key of the table gets the default.
\<close>

fun class_key :: "nat \<Rightarrow> json \<Rightarrow> error + string" where
  "class_key n (JStr s) =
     Inr (case map_of class_mapping s of Some k \<Rightarrow> k | None \<Rightarrow> str_nat n)"
| "class_key n (JArr xs) = Inl TypeError"
| "class_key n (JObj kvs) = Inl TypeError"
| "class_key n _ = Inr (str_nat n)"

text \<open>The loop over \<^verbatim>\<open>class_list\<close>, appending to \<^verbatim>\<open>classes\<close>.\<close>

fun class_loop :: "class_dict list \<Rightarrow> json list \<Rightarrow> error + class_dict list" where
  "class_loop cls [] = Inr cls"
| "class_loop cls (class_name # rest) =
     (case class_key (length cls) class_name of
        Inl e \<Rightarrow> Inl e
      | Inr k \<Rightarrow> class_loop (cls @ [\<lparr> key = k, val = class_name \<rparr>]) rest)"

text \<open>\<^verbatim>\<open>v[k]\<close> for a string key.\<close>

fun py_getitem :: "json \<Rightarrow> string \<Rightarrow> error + json" where
  "py_getitem (JObj kvs) k = (case map_of kvs k of Some v \<Rightarrow> Inr v | None \<Rightarrow> Inl KeyError)"
| "py_getitem _ k = Inl TypeError"

definition ml_task_classes :: "(string \<times> json) list \<Rightarrow> error + class_dict list" where
  "ml_task_classes d =
     (let ml_task = dict_get d ''geocr:mlTask'' (JObj [])
      in if \<not> truthy ml_task then Inr []
         else and_then (py_contains ''classes'' ml_task) (\<lambda>has_classes.
              if has_classes
              then and_then (py_getitem ml_task ''classes'') (\<lambda>class_list.
                   case class_list of
                     JArr class_names \<Rightarrow> class_loop [] class_names
                   | _ \<Rightarrow> Inr [])
              else Inr []))"

definition default_classes :: "class_dict list" where
  "default_classes =
     [\<lparr> key = ''0'', val = JStr ''NotBurned'' \<rparr>,
      \<lparr> key = ''1'', val = JStr ''BurnScar'' \<rparr>,
      \<lparr> key = ''-1'', val = JStr ''NoData'' \<rparr>]"


subsection \<open>Data entries from \<^verbatim>\<open>geocr:fileListing\<close>\<close>

text \<open>
  The body of \<^verbatim>\<open>for i in range(...)\<close>, run over the indices in order; \<open>dat\<close> and
  \<open>ws\<close> are the entries appended and the warnings printed so far. An empty image or
  annotation URL prints a warning and goes on with the next index.
\<close>

fun data_loop ::
  "json \<Rightarrow> json \<Rightarrow> nat list \<Rightarrow> data_entry list \<Rightarrow> warning list \<Rightarrow> data_entry list run"
where
  "data_loop all_images all_annotations [] dat ws = (ws, Inr dat)"
| "data_loop all_images all_annotations (i # rest) dat ws =
     (case py_item all_images i of
        Inl e \<Rightarrow> (ws, Inl e)
      | Inr img_url \<Rightarrow>
          (case py_item all_annotations i of
             Inl e \<Rightarrow> (ws, Inl e)
           | Inr mask_url \<Rightarrow>
               if \<not> truthy img_url \<or> \<not> truthy mask_url
               then data_loop all_images all_annotations rest dat (ws @ [SkippingEntry i])
               else data_loop all_images all_annotations rest
                      (dat @ [make_data_entry ''EOTrainingData'' ''PixelLabel'' i img_url mask_url])
                      ws))"

text \<open>
  \<^verbatim>\<open>max_samples = min(50, total_samples) if total_samples > 0 else min(50, min_pairs)\<close>
\<close>

definition max_samples :: "number \<Rightarrow> nat \<Rightarrow> number" where
  "max_samples ts min_pairs =
     (if py_lt (NInt 0) ts then py_min (NInt 50) ts else py_min (NInt 50) (NInt (int min_pairs)))"

text \<open>
  The \<^verbatim>\<open>else\<close> branch of \<^verbatim>\<open>if not file_listing\<close>, with the loop over
  \<^verbatim>\<open>range(min(max_samples, min_pairs))\<close>; \<^verbatim>\<open>total_samples > 0\<close> needs a number,
  \<^verbatim>\<open>range\<close> an integer.
\<close>

definition file_listing_data :: "json \<Rightarrow> json \<Rightarrow> data_entry list run" where
  "file_listing_data total_samples file_listing =
     (if \<not> truthy file_listing then ([NoFileListing], Inr [])
      else run_then (lift (all_images_annotations file_listing)) (\<lambda>all.
           run_then (lift (py_len (fst all))) (\<lambda>n_images.
           run_then (lift (py_len (snd all))) (\<lambda>n_annotations.
           let min_pairs = min n_images n_annotations
           in if min_pairs = 0 then ([NoPairsFound], Inr [])
              else run_then (lift (py_num total_samples)) (\<lambda>ts.
                   run_then (lift (py_range_arg
                               (py_min (max_samples ts min_pairs) (NInt (int min_pairs)))))
                     (\<lambda>stop.
                   data_loop (fst all) (snd all) [0 ..< nat stop] [] []))))))"

subsection \<open>The assembled document\<close>

text \<open>The required fields whose value is falsy, in the order of \<^verbatim>\<open>required_fields\<close>.\<close>

definition missing_fields :: "tdml \<Rightarrow> string list" where
  "missing_fields t =
     (if tdml_type t = [] then [''type''] else []) @
     (if \<not> truthy (tdml_id t) then [''id''] else []) @
     (if \<not> truthy (name t) then [''name''] else []) @
     (if \<not> truthy (description t) then [''description''] else []) @
     (if \<not> truthy (license t) then [''license''] else []) @
     (if providers t = [] then [''providers''] else []) @
     (if \<not> truthy (createdTime t) then [''createdTime''] else []) @
     (if \<not> truthy (updatedTime t) then [''updatedTime''] else []) @
     (if \<not> truthy (version t) then [''version''] else []) @
     (if tasks t = [] then [''tasks''] else []) @
     (if classes t = [] then [''classes''] else []) @
     (if bands t = [] then [''bands''] else []) @
     (if data t = [] then [''data''] else [])"

text \<open>
  The dict literal assigned to \<^verbatim>\<open>tdml_structure\<close>, from the parsed source and the
  classes, bands, statistics and data entries computed before it.
\<close>

definition tdml_structure ::
  "(string \<times> json) list \<Rightarrow> class_dict list \<Rightarrow> band_dict list \<Rightarrow> statistics \<Rightarrow>
   data_entry list \<Rightarrow> tdml"
where
  "tdml_structure d cls bnds stats dat =
     (let lic = license_field d;
          provs = creators_providers d
      in \<lparr> tdml_type = ''EOTrainingDataset'',
           tdml_id = identifier_of d,
           name = dict_get d ''name'' (JStr ''HLS_Burn_Scars''),
           description = description_of d,
           license = (if \<not> truthy lic
                      then JStr ''https://creativecommons.org/licenses/by/4.0/'' else lic),
           providers = (if provs = [] then [JStr ''IBM-NASA Prithvi Models Family'']
                        else provs),
           createdTime = created_time d,
           updatedTime = updated_time d,
           version = dict_get d ''version'' (JStr ''1.0.0''),
           tasks = [segmentation_task ''EOTask''],
           classes = cls,
           bands = bnds,
           data = dat,
           amountOfTrainingData = length dat,
           numberOfClasses = length cls,
           dataStatistics = stats \<rparr>)"

text \<open>The two \<^verbatim>\<open>if not ...\<close> that substitute the default classes and bands.\<close>

definition classes_or_default :: "class_dict list \<Rightarrow> class_dict list run" where
  "classes_or_default cls =
     (if cls = [] then ([NoClassesFound], Inr default_classes) else ([], Inr cls))"

definition bands_or_default :: "band_dict list \<Rightarrow> band_dict list run" where
  "bands_or_default bnds =
     (if bnds = [] then ([NoBandsFound], Inr default_bands) else ([], Inr bnds))"

definition required_fields_check :: "tdml \<Rightarrow> tdml run" where
  "required_fields_check t =
     (if missing_fields t \<noteq> [] then [MissingRequiredFields (missing_fields t)] else [], Inr t)"

text \<open>
  Everything between loading the source and writing the target: the statements of
  \<^verbatim>\<open>convert_geocroissant_to_tdml_manual\<close> in their order, up to the required-field
  check. The first \<^verbatim>\<open>.get\<close> needs \<^verbatim>\<open>croissant_data\<close> to be a dict.
\<close>

definition remap :: "json \<Rightarrow> tdml run" where
  "remap croissant_data =
     run_then (lift (py_items croissant_data)) (\<lambda>d.
     run_then (main_record_set d) (\<lambda>main.
     run_then (lift (py_get main ''field'' (JArr []))) (\<lambda>fields.
     run_then (lift (sensor_bands d)) (\<lambda>bands0.
     run_then (lift (ml_task_classes d)) (\<lambda>classes0.
     run_then (classes_or_default classes0) (\<lambda>cls.
     run_then (bands_or_default bands0) (\<lambda>bnds.
     run_then (lift (data_statistics d)) (\<lambda>stats.
     run_then (file_listing_data (totalSamples stats)
                 (dict_get d ''geocr:fileListing'' (JObj []))) (\<lambda>dat.
     required_fields_check (tdml_structure d cls bnds stats dat))))))))))"

subsection \<open>Loading and writing\<close>

text \<open>
  The file system maps a path to the text stored there. \<open>json_load\<close> is
  \<^verbatim>\<open>json.load\<close> on a text (\<open>Inl\<close> the message of its \<^verbatim>\<open>JSONDecodeError\<close>),
  \<open>json_dump\<close> the serialisation of the document, \<open>write_failure\<close> the text of the
  exception that opening a path for writing raises, if any. A source path that exists is
  readable. The lines printed after a successful write are not modelled.
\<close>

type_synonym files = "string \<Rightarrow> string option"

definition convert_geocroissant_to_tdml_manual ::
  "(string \<Rightarrow> string + json) \<Rightarrow> (tdml \<Rightarrow> string) \<Rightarrow> (string \<Rightarrow> string option) \<Rightarrow>
   files \<Rightarrow> string \<Rightarrow> string \<Rightarrow> files \<times> unit run"
where
  "convert_geocroissant_to_tdml_manual json_load json_dump write_failure fs
       geocroissant_path tdml_output_path =
     (case fs geocroissant_path of
        None \<Rightarrow>
          (fs, [], Inl (FileNotFoundError (''GeoCroissant file not found: '' @ geocroissant_path)))
      | Some text \<Rightarrow>
          (case json_load text of
             Inl e \<Rightarrow> (fs, [], Inl (ValueError (''Invalid JSON in GeoCroissant file: '' @ e)))
           | Inr croissant_data \<Rightarrow>
               (case remap croissant_data of
                  (ws, Inl e) \<Rightarrow> (fs, ws, Inl e)
                | (ws, Inr t) \<Rightarrow>
                    (case write_failure tdml_output_path of
                       Some e \<Rightarrow> (fs, ws, Inl (IOError (''Failed to write TDML file: '' @ e)))
                     | None \<Rightarrow> (fs(tdml_output_path \<mapsto> json_dump t), ws, Inr ())))))"


section \<open>The converter at the top of \<^verbatim>\<open>OGC-TDML to GeoCroissant Support/\<close>\<close>

text \<open>
  The second script has the same function name; its definitions carry the suffix
  \<open>_top\<close>. It prints no warning, takes bands and classes from the fields of the record set
  named \<^verbatim>\<open>hls_burn_scars\<close>, and has no default for license, providers, bands or classes.
\<close>

subsection \<open>Main record set\<close>

fun find_hls_burn_scars :: "json list \<Rightarrow> error + json" where
  "find_hls_burn_scars [] = Inr JNull"
| "find_hls_burn_scars (rs # rest) =
     (case py_get rs ''name'' JNull of
        Inl e \<Rightarrow> Inl e
      | Inr n \<Rightarrow> if n = JStr ''hls_burn_scars'' then Inr rs else find_hls_burn_scars rest)"

definition main_record_set_top :: "(string \<times> json) list \<Rightarrow> error + json" where
  "main_record_set_top d =
     and_then (py_iter (dict_get d ''recordSet'' (JArr []))) (\<lambda>record_sets.
     and_then (find_hls_burn_scars record_sets) (\<lambda>main.
     if \<not> truthy main
     then Inl (ValueError (''Could not find main recordSet '' @ [CHR 0x27] @ ''hls_burn_scars''
                           @ [CHR 0x27]))
     else Inr main))"

subsection \<open>Bands and classes from the fields\<close>

text \<open>
  The loop \<^verbatim>\<open>for i in range(1, total_bands + 1)\<close> over \<^verbatim>\<open>band1\<close>, \<^verbatim>\<open>band2\<close>, ...;
  a key that is absent is passed over, the default name is \<^verbatim>\<open>f'Band {i}'\<close>.
\<close>

fun numbered_bands :: "(string \<times> json) list \<Rightarrow> nat list \<Rightarrow> error + band_dict list" where
  "numbered_bands band_config [] = Inr []"
| "numbered_bands band_config (i # rest) =
     (case map_of band_config (''band'' @ str_nat i) of
        None \<Rightarrow> numbered_bands band_config rest
      | Some band_info \<Rightarrow>
          (case make_band (''Band '' @ str_nat i) band_info of
             Inl e \<Rightarrow> Inl e
           | Inr b \<Rightarrow> (case numbered_bands band_config rest of
                         Inl e \<Rightarrow> Inl e
                       | Inr bs \<Rightarrow> Inr (b # bs))))"

text \<open>
  \<^verbatim>\<open>if 'image' in field_name and 'geocr:bandConfiguration' in field\<close> and its body:
  the bands one field contributes.
\<close>

definition field_bands :: "json \<Rightarrow> (string \<times> json) list \<Rightarrow> error + band_dict list" where
  "field_bands field_name field =
     and_then (py_contains ''image'' field_name) (\<lambda>is_image.
     if \<not> is_image then Inr []
     else case map_of field ''geocr:bandConfiguration'' of
            None \<Rightarrow> Inr []
          | Some band_config \<Rightarrow>
              and_then (py_get band_config ''totalBands'' (JInt 0)) (\<lambda>total_bands.
              and_then (py_num total_bands) (\<lambda>tb.
              and_then (py_range_arg tb) (\<lambda>n.
              and_then (py_items band_config) (\<lambda>bc.
              numbered_bands bc [1 ..< nat (n + 1)])))))"

text \<open>
  \<^verbatim>\<open>if 'annotation' in field_name and 'geocr:classValues' in field\<close> and its body:
  the classes one field contributes, in the order of \<^verbatim>\<open>class_values.items()\<close>.
\<close>

definition field_classes :: "json \<Rightarrow> (string \<times> json) list \<Rightarrow> error + class_dict list" where
  "field_classes field_name field =
     and_then (py_contains ''annotation'' field_name) (\<lambda>is_annotation.
     if \<not> is_annotation then Inr []
     else case map_of field ''geocr:classValues'' of
            None \<Rightarrow> Inr []
          | Some class_values \<Rightarrow>
              and_then (py_items class_values) (\<lambda>cv.
              Inr (map (\<lambda>kv. \<lparr> key = fst kv, val = snd kv \<rparr>) cv)))"

text \<open>The loop \<^verbatim>\<open>for field in fields\<close>, appending to \<^verbatim>\<open>bands\<close> and \<^verbatim>\<open>classes\<close>.\<close>

fun fields_loop ::
  "json list \<Rightarrow> band_dict list \<Rightarrow> class_dict list \<Rightarrow> error + band_dict list \<times> class_dict list"
where
  "fields_loop [] bnds cls = Inr (bnds, cls)"
| "fields_loop (field # rest) bnds cls =
     (case py_items field of
        Inl e \<Rightarrow> Inl e
      | Inr f \<Rightarrow>
          (case field_bands (dict_get f ''name'' (JStr '''')) f of
             Inl e \<Rightarrow> Inl e
           | Inr bs \<Rightarrow>
               (case field_classes (dict_get f ''name'' (JStr '''')) f of
                  Inl e \<Rightarrow> Inl e
                | Inr cs \<Rightarrow> fields_loop rest (bnds @ bs) (cls @ cs))))"

subsection \<open>Data entries\<close>

text \<open>
  \<^verbatim>\<open>for i, (img_url, mask_url) in enumerate(zip(all_images, all_annotations))\<close> with
  \<^verbatim>\<open>if i >= min(50, total_samples): break\<close> as the first statement of its body. The
  unused \<^verbatim>\<open>split\<close> of the body is left out.
\<close>

fun data_loop_top :: "json \<Rightarrow> nat \<Rightarrow> (json \<times> json) list \<Rightarrow> error + data_entry list" where
  "data_loop_top total_samples i [] = Inr []"
| "data_loop_top total_samples i (pair # rest) =
     (case py_num total_samples of
        Inl e \<Rightarrow> Inl e
      | Inr ts \<Rightarrow>
          if py_le (py_min (NInt 50) ts) (NInt (int i)) then Inr []
          else (case data_loop_top total_samples (Suc i) rest of
                  Inl e \<Rightarrow> Inl e
                | Inr es \<Rightarrow>
                    Inr (make_data_entry ''AI_EOTrainingData'' ''AI_PixelLabel'' i
                           (fst pair) (snd pair) # es)))"

subsection \<open>The assembled document, loading and writing\<close>

definition tdml_structure_top ::
  "(string \<times> json) list \<Rightarrow> class_dict list \<Rightarrow> band_dict list \<Rightarrow> statistics \<Rightarrow>
   data_entry list \<Rightarrow> tdml"
where
  "tdml_structure_top d cls bnds stats dat =
     \<lparr> tdml_type = ''AI_EOTrainingDataset'',
       tdml_id = identifier_of d,
       name = dict_get d ''name'' (JStr ''''),
       description = description_of d,
       license = license_field d,
       providers = creators_providers d,
       createdTime = created_time d,
       updatedTime = updated_time d,
       version = dict_get d ''version'' (JStr ''1.0''),
       tasks = [segmentation_task ''AI_EOTask''],
       classes = cls,
       bands = bnds,
       data = dat,
       amountOfTrainingData = length dat,
       numberOfClasses = length cls,
       dataStatistics = stats \<rparr>"

definition remap_top :: "json \<Rightarrow> error + tdml" where
  "remap_top croissant_data =
     and_then (py_items croissant_data) (\<lambda>d.
     and_then (main_record_set_top d) (\<lambda>main.
     and_then (py_get main ''field'' (JArr [])) (\<lambda>fields.
     and_then (py_iter fields) (\<lambda>fs.
     and_then (fields_loop fs [] []) (\<lambda>bc.
     and_then (data_statistics d) (\<lambda>stats.
     and_then (all_images_annotations (dict_get d ''geocr:fileListing'' (JObj []))) (\<lambda>aia.
     and_then (py_iter (fst aia)) (\<lambda>imgs.
     and_then (py_iter (snd aia)) (\<lambda>anns.
     and_then (data_loop_top (totalSamples stats) 0 (zip imgs anns)) (\<lambda>dat.
     Inr (tdml_structure_top d (snd bc) (fst bc) stats dat)))))))))))"

text \<open>
  This script catches nothing: a missing source raises the interpreter's own
  \<^verbatim>\<open>FileNotFoundError\<close>, a malformed one \<^verbatim>\<open>json.JSONDecodeError\<close>, a failed write
  an \<^verbatim>\<open>OSError\<close>.
\<close>

definition convert_geocroissant_to_tdml_manual_top ::
  "(string \<Rightarrow> string + json) \<Rightarrow> (tdml \<Rightarrow> string) \<Rightarrow> (string \<Rightarrow> string option) \<Rightarrow>
   files \<Rightarrow> string \<Rightarrow> string \<Rightarrow> files \<times> (error + unit)"
where
  "convert_geocroissant_to_tdml_manual_top json_load json_dump write_failure fs
       geocroissant_path tdml_output_path =
     (case fs geocroissant_path of
        None \<Rightarrow>
          (fs, Inl (FileNotFoundError (''[Errno 2] No such file or directory: ''
                                        @ repr_str geocroissant_path)))
      | Some text \<Rightarrow>
          (case json_load text of
             Inl e \<Rightarrow> (fs, Inl (JSONDecodeError e))
           | Inr croissant_data \<Rightarrow>
               (case remap_top croissant_data of
                  Inl e \<Rightarrow> (fs, Inl e)
                | Inr t \<Rightarrow>
                    (case write_failure tdml_output_path of
                       Some e \<Rightarrow> (fs, Inl OSError)
                     | None \<Rightarrow> (fs(tdml_output_path \<mapsto> json_dump t), Inr ())))))"


section \<open>Example documents\<close>

text \<open>
  Parsed source documents (the items of the top-level object) used to run the two
  scripts on concrete inputs. \<open>listing\<close> builds a \<^verbatim>\<open>geocr:fileListing\<close> from the four
  URL lists; \<open>named\<close> is a record set that has only a name.
\<close>

definition listing :: "string list \<Rightarrow> string list \<Rightarrow> string list \<Rightarrow> string list \<Rightarrow> json" where
  "listing train_images val_images train_annotations val_annotations =
     JObj [(''images'', JObj [(''train'', JArr (map JStr train_images)),
                              (''val'', JArr (map JStr val_images))]),
           (''annotations'', JObj [(''train'', JArr (map JStr train_annotations)),
                                   (''val'', JArr (map JStr val_annotations))])]"

definition named :: "string \<Rightarrow> json" where
  "named n = JObj [(''name'', JStr n)]"

text \<open>Three training and two validation pairs, no statistics.\<close>

definition doc_pairs :: "(string \<times> json) list" where
  "doc_pairs =
     [(''recordSet'', JArr [named ''hls_burn_scars'']),
      (''geocr:fileListing'',
       listing [''t0.tif'', ''t1.tif'', ''t2.tif''] [''v0.tif'', ''v1.tif'']
               [''t0.mask.tif'', ''t1.mask.tif'', ''t2.mask.tif'']
               [''v0.mask.tif'', ''v1.mask.tif''])]"

text \<open>The same five pairs with \<^verbatim>\<open>totalSamples\<close> set to 2.\<close>

definition doc_capped :: "(string \<times> json) list" where
  "doc_capped = (''geocr:dataStatistics'', JObj [(''totalSamples'', JInt 2)]) # doc_pairs"

text \<open>The same five pairs with \<^verbatim>\<open>totalSamples\<close> set to the float 2.5.\<close>

definition doc_fraction :: "(string \<times> json) list" where
  "doc_fraction =
     (''geocr:dataStatistics'', JObj [(''totalSamples'', JFloat (Finite (5 / 2) ''2.5''))])
     # doc_pairs"

text \<open>Three pairs, the image URL of the second one empty; without and with \<^verbatim>\<open>totalSamples\<close>.\<close>

definition doc_skip :: "(string \<times> json) list" where
  "doc_skip =
     [(''recordSet'', JArr [named ''hls_burn_scars'']),
      (''geocr:fileListing'',
       listing [''a.tif'', '''', ''c.tif''] []
               [''a.mask.tif'', ''b.mask.tif'', ''c.mask.tif''] [])]"

definition doc_skip_total :: "(string \<times> json) list" where
  "doc_skip_total = (''geocr:dataStatistics'', JObj [(''totalSamples'', JInt 3)]) # doc_skip"

text \<open>Record sets none of which is named after HLS; an empty record-set list.\<close>

definition doc_fallback :: "(string \<times> json) list" where
  "doc_fallback = [(''recordSet'', JArr [named ''other'', named ''foo''])]"

definition doc_no_record_set :: "(string \<times> json) list" where
  "doc_no_record_set = [(''recordSet'', JArr [])]"

text \<open>Nothing but the record set \<^verbatim>\<open>hls_burn_scars\<close>, which has no field.\<close>

definition doc_bare :: "(string \<times> json) list" where
  "doc_bare = [(''recordSet'', JArr [named ''hls_burn_scars''])]"

text \<open>Class names under \<^verbatim>\<open>geocr:mlTask\<close>: an unknown name before a known one, and two unknown ones.\<close>

definition doc_classes :: "(string \<times> json) list" where
  "doc_classes =
     [(''recordSet'', JArr [named ''hls_burn_scars'']),
      (''geocr:mlTask'', JObj [(''classes'', JArr [JStr ''Water'', JStr ''NotBurned''])])]"

definition doc_unknown_classes :: "(string \<times> json) list" where
  "doc_unknown_classes =
     [(''recordSet'', JArr [named ''hls_burn_scars'']),
      (''geocr:mlTask'', JObj [(''classes'', JArr [JStr ''Water'', JStr ''Cloud''])])]"

text \<open>
  One band in the record-set field shape only; and a document that has, besides it, two
  bands in the top-level shape, \<^verbatim>\<open>band2\<close> written before \<^verbatim>\<open>band1\<close>.
\<close>

definition image_field :: json where
  "image_field =
     JObj [(''name'', JStr ''image''),
           (''geocr:bandConfiguration'',
            JObj [(''totalBands'', JInt 1),
                  (''band1'', JObj [(''name'', JStr ''Coastal''), (''wavelength'', JStr ''443nm''),
                                    (''hlsBand'', JStr ''B01'')])])]"

definition doc_field_bands :: "(string \<times> json) list" where
  "doc_field_bands =
     [(''recordSet'', JArr [JObj [(''name'', JStr ''hls_burn_scars''),
                                  (''field'', JArr [image_field])]])]"

definition doc_both_shapes :: "(string \<times> json) list" where
  "doc_both_shapes =
     (''geocr:sensorCharacteristics'',
      JArr [JObj [(''bandConfiguration'',
                   JObj [(''band2'', JObj [(''name'', JStr ''Green''), (''hlsBand'', JStr ''B03'')]),
                         (''band1'', JObj [(''name'', JStr ''Blue''), (''hlsBand'', JStr ''B02'')])])]])
     # doc_field_bands"

text \<open>An empty name and an empty description.\<close>

definition doc_empty_name :: "(string \<times> json) list" where
  "doc_empty_name =
     [(''name'', JStr ''''), (''description'', JStr ''''),
      (''recordSet'', JArr [named ''hls_burn_scars''])]"


section \<open>Sequencing lemmas\<close>

lemma and_then_Inr: "and_then r f = Inr y \<longleftrightarrow> (\<exists>x. r = Inr x \<and> f x = Inr y)"
  by (cases r) (simp_all add: and_then_def)

lemma and_thenE:
  assumes "and_then r f = Inr y"
  obtains x where "r = Inr x" and "f x = Inr y"
  using assms unfolding and_then_Inr by blast

lemma run_thenE:
  assumes "run_then m f = (ws, Inr y)"
  obtains ws1 x ws2 where "m = (ws1, Inr x)" and "f x = (ws2, Inr y)" and "ws = ws1 @ ws2"
  using assms by (auto simp: run_then_def split: prod.splits sum.splits)

lemma lift_Inr: "lift r = (ws, Inr x) \<longleftrightarrow> ws = [] \<and> r = Inr x"
  by (auto simp: lift_def)

lemma py_items_Inr: "py_items v = Inr d \<longleftrightarrow> v = JObj d"
  by (cases v) auto

text \<open>What a successful run of either script went through.\<close>

lemma remap_InrE:
  assumes "remap src = (ws, Inr t)"
  obtains d w1 main flds bands0 classes0 stats w4 dat where
    "src = JObj d" and "main_record_set d = (w1, Inr main)"
    and "py_get main ''field'' (JArr []) = Inr flds"
    and "sensor_bands d = Inr bands0" and "ml_task_classes d = Inr classes0"
    and "data_statistics d = Inr stats"
    and "file_listing_data (totalSamples stats) (dict_get d ''geocr:fileListing'' (JObj []))
            = (w4, Inr dat)"
    and "t = tdml_structure d (if classes0 = [] then default_classes else classes0)
                (if bands0 = [] then default_bands else bands0) stats dat"
    and "ws = w1 @ (if classes0 = [] then [NoClassesFound] else [])
                  @ (if bands0 = [] then [NoBandsFound] else []) @ w4
                  @ (if missing_fields t \<noteq> [] then [MissingRequiredFields (missing_fields t)] else [])"
proof -
  from assms obtain d main flds bands0 classes0 cls bnds stats dat
      and w0 w1 w2 w3 w4 w5 w6 w7 w8 w9 v1 v2 v3 v4 v5 v6 v7 v8 :: "warning list" where
    "lift (py_items src) = (w0, Inr d)" and "ws = w0 @ v1"
    and "main_record_set d = (w1, Inr main)" and "v1 = w1 @ v2"
    and "lift (py_get main ''field'' (JArr [])) = (w2, Inr flds)" and "v2 = w2 @ v3"
    and "lift (sensor_bands d) = (w3, Inr bands0)" and "v3 = w3 @ v4"
    and "lift (ml_task_classes d) = (w4, Inr classes0)" and "v4 = w4 @ v5"
    and "classes_or_default classes0 = (w5, Inr cls)" and "v5 = w5 @ v6"
    and "bands_or_default bands0 = (w6, Inr bnds)" and "v6 = w6 @ v7"
    and "lift (data_statistics d) = (w7, Inr stats)" and "v7 = w7 @ v8"
    and "file_listing_data (totalSamples stats) (dict_get d ''geocr:fileListing'' (JObj []))
           = (w8, Inr dat)" and "v8 = w8 @ w9"
    and "required_fields_check (tdml_structure d cls bnds stats dat) = (w9, Inr t)"
    unfolding remap_def by (elim run_thenE)
  then show ?thesis
    by (intro that[of d w1 main flds bands0 classes0 stats w8 dat])
       (auto simp: lift_Inr py_items_Inr classes_or_default_def bands_or_default_def
          required_fields_check_def split: if_splits)
qed

lemma remap_top_InrE:
  assumes "remap_top src = Inr t"
  obtains d main flds fs bnds cls stats ai aa imgs anns dat where
         "src = JObj d" and "main_record_set_top d = Inr main"
       and "py_get main ''field'' (JArr []) = Inr flds" and "py_iter flds = Inr fs"
       and "fields_loop fs [] [] = Inr (bnds, cls)"
       and "data_statistics d = Inr stats"
       and "all_images_annotations (dict_get d ''geocr:fileListing'' (JObj [])) = Inr (ai, aa)"
       and "py_iter ai = Inr imgs" and "py_iter aa = Inr anns"
       and "data_loop_top (totalSamples stats) 0 (zip imgs anns) = Inr dat"
       and "t = tdml_structure_top d cls bnds stats dat"
proof -
  from assms obtain d main flds fs bc stats aia imgs anns dat where
    "py_items src = Inr d" and "main_record_set_top d = Inr main"
    and "py_get main ''field'' (JArr []) = Inr flds" and "py_iter flds = Inr fs"
    and "fields_loop fs [] [] = Inr bc" and "data_statistics d = Inr stats"
    and "all_images_annotations (dict_get d ''geocr:fileListing'' (JObj [])) = Inr aia"
    and "py_iter (fst aia) = Inr imgs" and "py_iter (snd aia) = Inr anns"
    and "data_loop_top (totalSamples stats) 0 (zip imgs anns) = Inr dat"
    and "Inr (tdml_structure_top d (snd bc) (fst bc) stats dat) = (Inr t :: error + tdml)"
    unfolding remap_top_def by (elim and_thenE)
  then show ?thesis
    by (intro that[of d main flds fs "fst bc" "snd bc" stats "fst aia" "snd aia" imgs anns dat])
       (simp_all add: py_items_Inr)
qed

section \<open>Derived counts\<close>

text \<open>
  C3. Whenever either script gets as far as its target document, that document's
  \<^verbatim>\<open>amountOfTrainingData\<close> is the length of its \<^verbatim>\<open>data\<close> and its
  \<^verbatim>\<open>numberOfClasses\<close> is the length of its \<^verbatim>\<open>classes\<close>.
\<close>

theorem count_invariants:
  assumes "remap src = (ws, Inr t) \<or> remap_top src = Inr t"
  shows "amountOfTrainingData t = length (data t) \<and> numberOfClasses t = length (classes t)"
  using assms
proof
  assume "remap src = (ws, Inr t)"
  then show ?thesis
    by (elim remap_InrE) (simp add: tdml_structure_def Let_def)
next
  assume "remap_top src = Inr t"
  then show ?thesis
    by (elim remap_top_InrE) (simp add: tdml_structure_top_def)
qed

theorem count_invariants_witness:
  "remap (JObj doc_pairs) = (fst (remap (JObj doc_pairs)), Inr (projr (snd (remap (JObj doc_pairs)))))
   \<and> amountOfTrainingData (projr (snd (remap (JObj doc_pairs))))
       = length (data (projr (snd (remap (JObj doc_pairs)))))
   \<and> numberOfClasses (projr (snd (remap (JObj doc_pairs))))
       = length (classes (projr (snd (remap (JObj doc_pairs)))))
   \<and> length (data (projr (snd (remap (JObj doc_pairs))))) = 5
   \<and> length (classes (projr (snd (remap (JObj doc_pairs))))) = 3"
proof -
  have run: "remap (JObj doc_pairs) = (fst (remap (JObj doc_pairs)), Inr (projr (snd (remap (JObj doc_pairs)))))"
    by code_simp
  have counts:
    "amountOfTrainingData (projr (snd (remap (JObj doc_pairs))))
       = length (data (projr (snd (remap (JObj doc_pairs)))))
     \<and> numberOfClasses (projr (snd (remap (JObj doc_pairs))))
       = length (classes (projr (snd (remap (JObj doc_pairs)))))"
    by (rule count_invariants [OF disjI1 [OF run]])
  have five: "length (data (projr (snd (remap (JObj doc_pairs))))) = 5"
    by code_simp
  have three: "length (classes (projr (snd (remap (JObj doc_pairs))))) = 3"
    by code_simp
  from run counts five three show ?thesis by blast
qed


section \<open>Numbers\<close>

lemma py_lt_int [simp]: "py_lt (NInt a) (NInt b) \<longleftrightarrow> a < b"
  by (simp add: py_lt_def)

lemma py_le_int [simp]: "py_le (NInt a) (NInt b) \<longleftrightarrow> a \<le> b"
  by (auto simp: py_le_def)

lemma py_min_int [simp]: "py_min (NInt a) (NInt b) = NInt (min a b)"
  by (auto simp: py_min_def)

lemma ext_lt_trans: "ext_lt a b \<Longrightarrow> ext_lt b c \<Longrightarrow> ext_lt a c"
  by (cases a; cases b; cases c) auto

lemma ext_lt_le_trans: "\<not> ext_lt b a \<Longrightarrow> ext_lt b c \<Longrightarrow> a \<noteq> NotANumber \<Longrightarrow> ext_lt a c"
  by (cases a; cases b; cases c) auto

lemma py_lt_imp_le: "py_lt a b \<Longrightarrow> py_le a b"
  unfolding py_lt_def py_le_def by (cases "num_value a"; cases "num_value b") auto

lemma py_le_refl_int: "py_le (NInt a) (NInt a)"
  by simp

lemma py_le_mono: "py_le (NInt a) x \<Longrightarrow> b \<le> a \<Longrightarrow> py_le (NInt b) x"
  unfolding py_le_def by (cases "num_value x") auto

lemma not_py_le_iff: "num_value c \<noteq> NotANumber \<Longrightarrow> \<not> py_le c (NInt k) \<longleftrightarrow> py_lt (NInt k) c"
  by (simp add: py_le_def py_lt_def)

lemma cap_not_nan: "num_value (py_min (NInt 50) ts) \<noteq> NotANumber"
  unfolding py_min_def py_lt_def by (cases "num_value ts") auto

lemma cap_le_50: "50 \<le> k \<Longrightarrow> py_le (py_min (NInt 50) ts) (NInt k)"
  unfolding py_min_def py_lt_def py_le_def by (cases "num_value ts") auto

lemma max_samples_int:
  "max_samples (NInt ts) m = NInt (if 0 < ts then min 50 ts else min 50 (int m))"
  by (simp add: max_samples_def)

text \<open>The three bounds on the argument of \<^verbatim>\<open>range\<close>.\<close>

lemma range_stop_le_pairs:
  assumes "py_range_arg (py_min a (NInt m)) = Inr stop"
  shows "stop \<le> m"
proof (cases "py_lt (NInt m) a")
  case True
  with assms show ?thesis by (simp add: py_min_def)
next
  case False
  with assms obtain k where "a = NInt k" by (cases a) (simp_all add: py_min_def)
  with assms False show ?thesis by (simp add: py_min_def)
qed

lemma range_stop_le_cap:
  assumes "py_range_arg (py_min (py_min (NInt 50) x) (NInt m)) = Inr stop"
  shows "py_le (NInt stop) (py_min (NInt 50) x)"
proof (cases "py_lt (NInt m) (py_min (NInt 50) x)")
  case True
  with assms have "stop = m" by (simp add: py_min_def)
  with True show ?thesis by (simp add: py_lt_imp_le)
next
  case False
  with assms have "py_range_arg (py_min (NInt 50) x) = Inr stop"
    by (simp add: py_min_def[of _ "NInt m"])
  then have "py_min (NInt 50) x = NInt stop" by (cases "py_min (NInt 50) x") simp_all
  then show ?thesis by simp
qed

lemma py_le_cap_50: "py_le (NInt k) (py_min (NInt 50) x) \<Longrightarrow> k \<le> 50"
  unfolding py_min_def py_lt_def py_le_def by (cases "num_value x") (auto split: if_splits)

lemma range_stop_le_50:
  assumes "py_range_arg (py_min (max_samples ts m) (NInt (int m))) = Inr stop"
  shows "stop \<le> 50"
  using assms range_stop_le_cap py_le_cap_50 unfolding max_samples_def
  by (metis (full_types))

lemma range_stop_positive:
  assumes "py_lt (NInt 0) ts"
    and "py_range_arg (py_min (max_samples ts m) (NInt (int m))) = Inr stop"
  shows "py_le (NInt stop) (py_min (NInt 50) ts)"
  using assms range_stop_le_cap by (simp add: max_samples_def)

lemma zero_le_cap: "py_lt (NInt 0) ts \<Longrightarrow> py_le (NInt 0) (py_min (NInt 50) ts)"
  unfolding py_min_def py_lt_def py_le_def by (cases "num_value ts") auto


section \<open>Data entries\<close>

subsection \<open>The loops\<close>

lemma py_add_not_obj: "py_add a b = Inr v \<Longrightarrow> v \<noteq> JObj kvs"
  by (cases a; cases b) auto

lemma py_len_iter: "py_len v = Inr n \<Longrightarrow> \<exists>xs. py_iter v = Inr xs \<and> length xs = n"
  by (cases v) auto

lemma py_iter_len: "py_iter v = Inr xs \<Longrightarrow> py_len v = Inr (length xs)"
  by (cases v) auto

lemma all_images_annotations_not_obj:
  assumes "all_images_annotations fl = Inr (ai, aa)"
  shows "(\<forall>kvs. ai \<noteq> JObj kvs) \<and> (\<forall>kvs. aa \<noteq> JObj kvs)"
proof -
  from assms obtain a b c e where "py_add a b = Inr ai" and "py_add c e = Inr aa"
    unfolding all_images_annotations_def by (elim and_thenE) auto
  then show ?thesis using py_add_not_obj by blast
qed

lemma all_images_annotations_iter:
  assumes "all_images_annotations fl = Inr (ai, aa)"
  shows "\<exists>imgs anns. py_iter ai = Inr imgs \<and> py_iter aa = Inr anns"
proof -
  from assms obtain a b c e where "py_add a b = Inr ai" and "py_add c e = Inr aa"
    unfolding all_images_annotations_def by (elim and_thenE) auto
  then show ?thesis by (cases a; cases b; cases c; cases e) auto
qed

lemma all_images_annotations_obj:
  assumes "all_images_annotations fl = Inr (ai, aa)"
  shows "\<exists>kvs. fl = JObj kvs"
  using assms unfolding all_images_annotations_def by (cases fl) (simp_all add: and_then_def)

lemma all_images_annotations_empty:
  assumes "all_images_annotations fl = Inr (ai, aa)" and "\<not> truthy fl"
  shows "ai = JArr [] \<and> aa = JArr []"
proof -
  from assms have "fl = JObj []" using all_images_annotations_obj by fastforce
  with assms(1) show ?thesis
    by (auto simp: all_images_annotations_def and_then_def dict_get_def)
qed

lemma py_item_seq:
  assumes "py_iter v = Inr xs" and "\<forall>kvs. v \<noteq> JObj kvs" and "i < length xs"
  shows "py_item v i = Inr (xs ! i)"
  using assms by (cases v) auto

lemma data_loop_filter:
  assumes "py_iter ai = Inr imgs" and "py_iter aa = Inr anns"
    and "\<forall>kvs. ai \<noteq> JObj kvs" and "\<forall>kvs. aa \<noteq> JObj kvs"
    and "\<forall>i\<in>set is. i < length imgs \<and> i < length anns"
  shows "data_loop ai aa is dat ws =
           (ws @ map SkippingEntry (filter (\<lambda>i. \<not> (truthy (imgs ! i) \<and> truthy (anns ! i))) is),
            Inr (dat @ map (\<lambda>i. make_data_entry ''EOTrainingData'' ''PixelLabel'' i (imgs ! i) (anns ! i))
                         (filter (\<lambda>i. truthy (imgs ! i) \<and> truthy (anns ! i)) is)))"
  using assms(5)
proof (induction "is" arbitrary: dat ws)
  case Nil
  show ?case by simp
next
  case (Cons i rest)
  then have i: "py_item ai i = Inr (imgs ! i)" "py_item aa i = Inr (anns ! i)"
    using assms(1-4) by (simp_all add: py_item_seq)
  from Cons.prems have rest: "\<forall>i\<in>set rest. i < length imgs \<and> i < length anns" by simp
  show ?case
    by (simp add: i Cons.IH[OF rest])
qed

text \<open>
  The three ways in which the converter in \<^verbatim>\<open>GeoCroissant to OGC-TDML/\<close> gets through
  its file listing.
\<close>

lemma file_listing_data_cases:
  assumes "file_listing_data tot fl = (ws, Inr dat)"
  obtains (no_listing) "\<not> truthy fl" and "dat = []" and "ws = [NoFileListing]"
  | (no_pairs) ai aa imgs anns where "truthy fl"
      and "all_images_annotations fl = Inr (ai, aa)"
      and "py_iter ai = Inr imgs" and "py_iter aa = Inr anns"
      and "min (length imgs) (length anns) = 0" and "dat = []" and "ws = [NoPairsFound]"
  | (pairs) ai aa imgs anns ts stop where "truthy fl"
      and "all_images_annotations fl = Inr (ai, aa)"
      and "py_iter ai = Inr imgs" and "py_iter aa = Inr anns"
      and "0 < min (length imgs) (length anns)" and "py_num tot = Inr ts"
      and "py_range_arg (py_min (max_samples ts (min (length imgs) (length anns)))
                               (NInt (int (min (length imgs) (length anns))))) = Inr stop"
      and "dat = map (\<lambda>i. make_data_entry ''EOTrainingData'' ''PixelLabel'' i (imgs ! i) (anns ! i))
                 (filter (\<lambda>i. truthy (imgs ! i) \<and> truthy (anns ! i)) [0 ..< nat stop])"
      and "ws = map SkippingEntry
                 (filter (\<lambda>i. \<not> (truthy (imgs ! i) \<and> truthy (anns ! i))) [0 ..< nat stop])"
proof (cases "truthy fl")
  case False
  with assms show ?thesis by (intro no_listing) (simp_all add: file_listing_data_def)
next
  case True
  with assms have run: "run_then (lift (all_images_annotations fl)) (\<lambda>all.
           run_then (lift (py_len (fst all))) (\<lambda>n_images.
           run_then (lift (py_len (snd all))) (\<lambda>n_annotations.
           let min_pairs = min n_images n_annotations
           in if min_pairs = 0 then ([NoPairsFound], Inr [])
              else run_then (lift (py_num tot)) (\<lambda>ts.
                   run_then (lift (py_range_arg
                               (py_min (max_samples ts min_pairs) (NInt (int min_pairs)))))
                     (\<lambda>stop.
                   data_loop (fst all) (snd all) [0 ..< nat stop] [] []))))) = (ws, Inr dat)"
    by (simp add: file_listing_data_def)
  then obtain all n_images n_annotations and w0 w1 w2 v1 v2 v3 :: "warning list" where
    all: "lift (all_images_annotations fl) = (w0, Inr all)" and "ws = w0 @ v1"
    and ni: "lift (py_len (fst all)) = (w1, Inr n_images)" and "v1 = w1 @ v2"
    and na: "lift (py_len (snd all)) = (w2, Inr n_annotations)" and "v2 = w2 @ v3"
    and rest: "(let min_pairs = min n_images n_annotations
           in if min_pairs = 0 then ([NoPairsFound], Inr [])
              else run_then (lift (py_num tot)) (\<lambda>ts.
                   run_then (lift (py_range_arg
                               (py_min (max_samples ts min_pairs) (NInt (int min_pairs)))))
                     (\<lambda>stop.
                   data_loop (fst all) (snd all) [0 ..< nat stop] [] []))) = (v3, Inr dat)"
    by (elim run_thenE)
  then have ws: "ws = v3" by (simp add: lift_Inr)
  obtain ai aa where aia: "all = (ai, aa)" by (cases all)
  with all have afl: "all_images_annotations fl = Inr (ai, aa)" by (simp add: lift_Inr)
  from ni aia have "py_len ai = Inr n_images" by (simp add: lift_Inr)
  then obtain imgs where imgs: "py_iter ai = Inr imgs" "length imgs = n_images"
    using py_len_iter by blast
  from na aia have "py_len aa = Inr n_annotations" by (simp add: lift_Inr)
  then obtain anns where anns: "py_iter aa = Inr anns" "length anns = n_annotations"
    using py_len_iter by blast
  note nobj = all_images_annotations_not_obj[OF afl]
  show ?thesis
  proof (cases "min n_images n_annotations = 0")
    case True
    with rest ws imgs anns show ?thesis
      by (intro no_pairs[of ai aa imgs anns]) (simp_all add: \<open>truthy fl\<close> afl)
  next
    case False
    with rest have "run_then (lift (py_num tot)) (\<lambda>ts.
                   run_then (lift (py_range_arg
                               (py_min (max_samples ts (min n_images n_annotations))
                                       (NInt (int (min n_images n_annotations))))))
                     (\<lambda>stop.
                   data_loop (fst all) (snd all) [0 ..< nat stop] [] [])) = (v3, Inr dat)"
      by (simp add: Let_def)
    then obtain ts stop and u1 u2 u3 u4 :: "warning list" where ts: "lift (py_num tot) = (u1, Inr ts)"
      and "v3 = u1 @ u2"
      and stop: "lift (py_range_arg (py_min (max_samples ts (min n_images n_annotations))
                                       (NInt (int (min n_images n_annotations))))) = (u3, Inr stop)"
      and "u2 = u3 @ u4"
      and loop: "data_loop (fst all) (snd all) [0 ..< nat stop] [] [] = (u4, Inr dat)"
      by (elim run_thenE)
    then have v3: "v3 = u4" and pn: "py_num tot = Inr ts"
      and st: "py_range_arg (py_min (max_samples ts (min (length imgs) (length anns)))
                                   (NInt (int (min (length imgs) (length anns))))) = Inr stop"
      by (simp_all add: lift_Inr imgs(2) anns(2))
    have "stop \<le> int (min (length imgs) (length anns))"
      using st by (rule range_stop_le_pairs)
    then have bound: "\<forall>i\<in>set [0 ..< nat stop]. i < length imgs \<and> i < length anns"
      by auto
    from loop have "data_loop ai aa [0 ..< nat stop] [] [] = (u4, Inr dat)"
      by (simp only: aia fst_conv snd_conv)
    then have res: "u4 = map SkippingEntry
                          (filter (\<lambda>i. \<not> (truthy (imgs ! i) \<and> truthy (anns ! i))) [0 ..< nat stop])"
       "dat = map (\<lambda>i. make_data_entry ''EOTrainingData'' ''PixelLabel'' i (imgs ! i) (anns ! i))
                 (filter (\<lambda>i. truthy (imgs ! i) \<and> truthy (anns ! i)) [0 ..< nat stop])"
      unfolding data_loop_filter[OF imgs(1) anns(1) conjunct1[OF nobj] conjunct2[OF nobj] bound]
      by simp_all
    from False have pos: "0 < min (length imgs) (length anns)"
      unfolding imgs(2) anns(2) by simp
    show ?thesis
    proof (rule pairs[of ai aa imgs anns ts stop])
      show "truthy fl" by fact
      show "all_images_annotations fl = Inr (ai, aa)" by fact
      show "py_iter ai = Inr imgs" by fact
      show "py_iter aa = Inr anns" by fact
      show "0 < min (length imgs) (length anns)" by fact
      show "py_num tot = Inr ts" by fact
      show "py_range_arg (py_min (max_samples ts (min (length imgs) (length anns)))
                               (NInt (int (min (length imgs) (length anns))))) = Inr stop" by fact
      show "dat = map (\<lambda>i. make_data_entry ''EOTrainingData'' ''PixelLabel'' i (imgs ! i) (anns ! i))
                 (filter (\<lambda>i. truthy (imgs ! i) \<and> truthy (anns ! i)) [0 ..< nat stop])"
        by (rule res(2))
      show "ws = map SkippingEntry
                 (filter (\<lambda>i. \<not> (truthy (imgs ! i) \<and> truthy (anns ! i))) [0 ..< nat stop])"
        using res(1) ws v3 by simp
    qed
  qed
qed

text \<open>
  The other script's loop emits the indices below the number of pairs up to the first one
  that has reached \<^verbatim>\<open>min(50, total_samples)\<close>.
\<close>

lemma data_loop_top_takeWhile:
  assumes "py_num tot = Inr ts"
  shows "data_loop_top tot i pairs =
           Inr (map (\<lambda>k. make_data_entry ''AI_EOTrainingData'' ''AI_PixelLabel'' k
                            (fst (pairs ! (k - i))) (snd (pairs ! (k - i))))
                    (takeWhile (\<lambda>k. \<not> py_le (py_min (NInt 50) ts) (NInt (int k)))
                       [i ..< i + length pairs]))"
proof (induction pairs arbitrary: i)
  case Nil
  show ?case by simp
next
  case (Cons p rest)
  have len: "i + length (p # rest) = Suc i + length rest" by simp
  have "[i ..< Suc i + length rest] = i # [Suc i ..< Suc i + length rest]"
    by (rule upt_conv_Cons) simp
  then have upt: "[i ..< i + length (p # rest)] = i # [Suc i ..< Suc i + length rest]"
    unfolding len .
  show ?case
  proof (cases "py_le (py_min (NInt 50) ts) (NInt (int i))")
    case True
    then show ?thesis unfolding upt by (simp add: assms)
  next
    case False
    have shift: "map (\<lambda>k. make_data_entry ''AI_EOTrainingData'' ''AI_PixelLabel'' k
                            (fst ((p # rest) ! (k - i))) (snd ((p # rest) ! (k - i))))
                   (takeWhile (\<lambda>k. \<not> py_le (py_min (NInt 50) ts) (NInt (int k)))
                       [Suc i ..< Suc i + length rest])
                 = map (\<lambda>k. make_data_entry ''AI_EOTrainingData'' ''AI_PixelLabel'' k
                            (fst (rest ! (k - Suc i))) (snd (rest ! (k - Suc i))))
                   (takeWhile (\<lambda>k. \<not> py_le (py_min (NInt 50) ts) (NInt (int k)))
                       [Suc i ..< Suc i + length rest])"
    proof (rule map_cong[OF refl])
      fix k assume "k \<in> set (takeWhile (\<lambda>k. \<not> py_le (py_min (NInt 50) ts) (NInt (int k)))
                       [Suc i ..< Suc i + length rest])"
      then have "k \<in> set [Suc i ..< Suc i + length rest]" by (rule set_takeWhileD[THEN conjunct1])
      then have "k - i = Suc (k - Suc i)" by auto
      then show "make_data_entry ''AI_EOTrainingData'' ''AI_PixelLabel'' k
                   (fst ((p # rest) ! (k - i))) (snd ((p # rest) ! (k - i)))
                 = make_data_entry ''AI_EOTrainingData'' ''AI_PixelLabel'' k
                   (fst (rest ! (k - Suc i))) (snd (rest ! (k - Suc i)))"
        by simp
    qed
    have "data_loop_top tot i (p # rest) =
            Inr (make_data_entry ''AI_EOTrainingData'' ''AI_PixelLabel'' i (fst p) (snd p) #
                 map (\<lambda>k. make_data_entry ''AI_EOTrainingData'' ''AI_PixelLabel'' k
                            (fst (rest ! (k - Suc i))) (snd (rest ! (k - Suc i))))
                   (takeWhile (\<lambda>k. \<not> py_le (py_min (NInt 50) ts) (NInt (int k)))
                       [Suc i ..< Suc i + length rest]))"
      using False by (simp only: data_loop_top.simps assms Cons.IH[of "Suc i"] sum.case if_False)
    also have "\<dots> = Inr (map (\<lambda>k. make_data_entry ''AI_EOTrainingData'' ''AI_PixelLabel'' k
                            (fst ((p # rest) ! (k - i))) (snd ((p # rest) ! (k - i))))
                    (takeWhile (\<lambda>k. \<not> py_le (py_min (NInt 50) ts) (NInt (int k)))
                       (i # [Suc i ..< Suc i + length rest])))"
      using False
      by (simp only: takeWhile.simps if_True not_False_eq_True list.map shift diff_self_eq_0
            nth_Cons_0)
    finally show ?thesis unfolding upt .
  qed
qed

lemma data_loop_top_cases:
  assumes "data_loop_top tot 0 pairs = Inr dat"
  obtains (none) "pairs = []" and "dat = []"
  | (some) ts where "pairs \<noteq> []" and "py_num tot = Inr ts"
      and "dat = map (\<lambda>k. make_data_entry ''AI_EOTrainingData'' ''AI_PixelLabel'' k
                            (fst (pairs ! k)) (snd (pairs ! k)))
                    (takeWhile (\<lambda>k. \<not> py_le (py_min (NInt 50) ts) (NInt (int k)))
                       [0 ..< length pairs])"
proof (cases pairs)
  case Nil
  with assms show ?thesis by (intro none) simp_all
next
  case (Cons p rest)
  with assms obtain ts where ts: "py_num tot = Inr ts"
    by (cases "py_num tot") simp_all
  from assms show ?thesis
    unfolding data_loop_top_takeWhile[OF ts]
    by (intro some[of ts]) (simp_all add: Cons ts)
qed

text \<open>Taking indices while they stay below a bound.\<close>

lemma takeWhile_upt_prefix:
  "takeWhile P [0 ..< m] = [0 ..< length (takeWhile P [0 ..< m])]"
proof -
  have "takeWhile P [0 ..< m] = take (length (takeWhile P [0 ..< m])) [0 ..< m]"
    by (rule takeWhile_eq_take)
  also have "\<dots> = [0 ..< min (length (takeWhile P [0 ..< m])) m]"
    by (simp add: take_upt min_def)
  also have "min (length (takeWhile P [0 ..< m])) m = length (takeWhile P [0 ..< m])"
    using length_takeWhile_le[of P "[0 ..< m]"] by simp
  finally show ?thesis .
qed

lemma takeWhile_below:
  "takeWhile (\<lambda>k. int k < c) [0 ..< m] = [0 ..< min m (nat c)]"
proof (cases "m \<le> nat c")
  case True
  then have "\<forall>k\<in>set [0 ..< m]. int k < c" by auto
  then have "takeWhile (\<lambda>k. int k < c) [0 ..< m] = [0 ..< m]"
    by (simp add: takeWhile_eq_all_conv)
  with True show ?thesis by (simp add: min_def)
next
  case False
  then have split: "[0 ..< m] = [0 ..< nat c] @ nat c # [Suc (nat c) ..< m]"
    by (metis le_add_diff_inverse less_imp_le_nat not_le upt_add_eq_append upt_conv_Cons zero_le
          add_diff_cancel_left' zero_less_diff)
  have "takeWhile (\<lambda>k. int k < c) ([0 ..< nat c] @ nat c # [Suc (nat c) ..< m])
          = [0 ..< nat c] @ takeWhile (\<lambda>k. int k < c) (nat c # [Suc (nat c) ..< m])"
    by (rule takeWhile_append2) auto
  also have "takeWhile (\<lambda>k. int k < c) (nat c # [Suc (nat c) ..< m]) = []" by simp
  finally have "takeWhile (\<lambda>k. int k < c) [0 ..< m] = [0 ..< nat c]"
    unfolding split[symmetric] by simp
  with False show ?thesis by (simp add: min_def)
qed

lemma takeWhile_int_cap:
  "takeWhile (\<lambda>k. \<not> py_le (py_min (NInt 50) (NInt ts)) (NInt (int k))) [0 ..< m]
     = [0 ..< min m (nat (min 50 ts))]"
  using takeWhile_below[of "min 50 ts" m] by (simp add: not_le)


lemma data_of_remap:
  assumes "remap (JObj d) = (ws, Inr t)"
  obtains stats w4 where "data_statistics d = Inr stats" and "dataStatistics t = stats"
    and "file_listing_data (totalSamples stats) (dict_get d ''geocr:fileListing'' (JObj []))
           = (w4, Inr (data t))"
    and "set w4 \<subseteq> set ws"
  using assms by (elim remap_InrE) (auto simp: tdml_structure_def Let_def)

lemma data_of_remap_top:
  assumes "remap_top (JObj d) = Inr t"
  obtains stats ai aa imgs anns where "data_statistics d = Inr stats" and "dataStatistics t = stats"
    and "all_images_annotations (dict_get d ''geocr:fileListing'' (JObj [])) = Inr (ai, aa)"
    and "py_iter ai = Inr imgs" and "py_iter aa = Inr anns"
    and "data_loop_top (totalSamples stats) 0 (zip imgs anns) = Inr (data t)"
  using assms by (elim remap_top_InrE) (auto simp: tdml_structure_top_def)

lemma length_filter_upt: "length (filter P [0 ..< n]) \<le> n"
  using length_filter_le[of P "[0 ..< n]"] by simp

lemma range_stop_no_pairs: "py_min (max_samples ts 0) (NInt 0) = NInt 0"
proof (cases "py_lt (NInt 0) ts")
  case True
  then have "py_lt (NInt 0) (py_min (NInt 50) ts)"
    unfolding py_min_def py_lt_def by (cases "num_value ts") auto
  with True show ?thesis by (simp add: max_samples_def py_min_def)
next
  case False
  then show ?thesis by (simp add: max_samples_def)
qed

subsection \<open>The entries in terms of the source lists\<close>

text \<open>
  What the converter in \<^verbatim>\<open>GeoCroissant to OGC-TDML/\<close> emits, and the warnings it
  prints on the way, in terms of the two combined lists and the argument of its
  \<^verbatim>\<open>range\<close>.
\<close>

lemma data_of_remap_listing:
  assumes run: "remap (JObj d) = (ws, Inr t)"
    and aia: "all_images_annotations (dict_get d ''geocr:fileListing'' (JObj [])) = Inr (ai, aa)"
    and it: "py_iter ai = Inr imgs" "py_iter aa = Inr anns"
    and ts: "py_num (totalSamples (dataStatistics t)) = Inr ts"
  obtains stop where
      "py_range_arg (py_min (max_samples ts (min (length imgs) (length anns)))
                            (NInt (int (min (length imgs) (length anns))))) = Inr stop"
    and "data t = map (\<lambda>i. make_data_entry ''EOTrainingData'' ''PixelLabel'' i (imgs ! i) (anns ! i))
                      (filter (\<lambda>i. truthy (imgs ! i) \<and> truthy (anns ! i)) [0 ..< nat stop])"
    and "set (map SkippingEntry
                (filter (\<lambda>i. \<not> (truthy (imgs ! i) \<and> truthy (anns ! i))) [0 ..< nat stop]))
           \<subseteq> set ws"
proof -
  from run obtain stats w4 where stats: "dataStatistics t = stats"
    and fl: "file_listing_data (totalSamples stats) (dict_get d ''geocr:fileListing'' (JObj []))
               = (w4, Inr (data t))"
    and sub: "set w4 \<subseteq> set ws"
    by (rule data_of_remap)
  from fl show ?thesis
  proof (cases rule: file_listing_data_cases)
    case no_listing
    with aia have "ai = JArr []" "aa = JArr []"
      using all_images_annotations_empty by blast+
    with it have m: "min (length imgs) (length anns) = 0" by auto
    show ?thesis
      by (rule that[of 0]) (simp_all add: m range_stop_no_pairs no_listing)
  next
    case (no_pairs ai' aa' imgs' anns')
    with aia it have m: "min (length imgs) (length anns) = 0" by simp
    show ?thesis
      by (rule that[of 0]) (simp_all add: m range_stop_no_pairs no_pairs)
  next
    case (pairs ai' aa' imgs' anns' ts' stop)
    with aia it ts stats have eq: "imgs' = imgs" "anns' = anns" "ts' = ts" by simp_all
    show ?thesis
    proof (rule that[of stop])
      show "py_range_arg (py_min (max_samples ts (min (length imgs) (length anns)))
                            (NInt (int (min (length imgs) (length anns))))) = Inr stop"
        using pairs(7) unfolding eq .
      show "data t = map (\<lambda>i. make_data_entry ''EOTrainingData'' ''PixelLabel'' i (imgs ! i) (anns ! i))
                      (filter (\<lambda>i. truthy (imgs ! i) \<and> truthy (anns ! i)) [0 ..< nat stop])"
        using pairs(8) unfolding eq .
      show "set (map SkippingEntry
                (filter (\<lambda>i. \<not> (truthy (imgs ! i) \<and> truthy (anns ! i))) [0 ..< nat stop]))
           \<subseteq> set ws"
        using pairs(9) sub unfolding eq by simp
    qed
  qed
qed

text \<open>The other script emits every pair up to its \<^verbatim>\<open>break\<close>.\<close>

lemma data_of_remap_top_listing:
  assumes run: "remap_top (JObj d) = Inr t"
    and aia: "all_images_annotations (dict_get d ''geocr:fileListing'' (JObj [])) = Inr (ai, aa)"
    and it: "py_iter ai = Inr imgs" "py_iter aa = Inr anns"
    and ts: "py_num (totalSamples (dataStatistics t)) = Inr ts"
  shows "data t = map (\<lambda>i. make_data_entry ''AI_EOTrainingData'' ''AI_PixelLabel'' i (imgs ! i) (anns ! i))
                      (takeWhile (\<lambda>i. \<not> py_le (py_min (NInt 50) ts) (NInt (int i)))
                         [0 ..< min (length imgs) (length anns)])"
proof -
  from run obtain stats ai' aa' imgs' anns' where stats: "dataStatistics t = stats"
    and aia': "all_images_annotations (dict_get d ''geocr:fileListing'' (JObj [])) = Inr (ai', aa')"
    and it': "py_iter ai' = Inr imgs'" "py_iter aa' = Inr anns'"
    and loop: "data_loop_top (totalSamples stats) 0 (zip imgs' anns') = Inr (data t)"
    by (rule data_of_remap_top)
  with aia it have eq: "imgs' = imgs" "anns' = anns" by simp_all
  from ts stats have "py_num (totalSamples stats) = Inr ts" by simp
  from loop[unfolded data_loop_top_takeWhile[OF this] eq]
  have "data t = map (\<lambda>k. make_data_entry ''AI_EOTrainingData'' ''AI_PixelLabel'' k
                            (fst (zip imgs anns ! k)) (snd (zip imgs anns ! k)))
                    (takeWhile (\<lambda>i. \<not> py_le (py_min (NInt 50) ts) (NInt (int i)))
                         [0 ..< min (length imgs) (length anns)])"
    by simp
  also have "\<dots> = map (\<lambda>i. make_data_entry ''AI_EOTrainingData'' ''AI_PixelLabel'' i (imgs ! i) (anns ! i))
                      (takeWhile (\<lambda>i. \<not> py_le (py_min (NInt 50) ts) (NInt (int i)))
                         [0 ..< min (length imgs) (length anns)])"
  proof (rule map_cong[OF refl])
    fix k assume "k \<in> set (takeWhile (\<lambda>i. \<not> py_le (py_min (NInt 50) ts) (NInt (int i)))
                         [0 ..< min (length imgs) (length anns)])"
    then have "k \<in> set [0 ..< min (length imgs) (length anns)]"
      by (rule set_takeWhileD[THEN conjunct1])
    then show "make_data_entry ''AI_EOTrainingData'' ''AI_PixelLabel'' k
                 (fst (zip imgs anns ! k)) (snd (zip imgs anns ! k))
               = make_data_entry ''AI_EOTrainingData'' ''AI_PixelLabel'' k (imgs ! k) (anns ! k)"
      by simp
  qed
  finally show ?thesis .
qed

text \<open>Without a pair the other script does not look at \<^verbatim>\<open>total_samples\<close>.\<close>

lemma data_of_remap_top_bounds:
  assumes run: "remap_top (JObj d) = Inr t"
  obtains ai aa imgs anns where
      "all_images_annotations (dict_get d ''geocr:fileListing'' (JObj [])) = Inr (ai, aa)"
    and "py_iter ai = Inr imgs" and "py_iter aa = Inr anns"
    and "length (data t) \<le> min 50 (min (length imgs) (length anns))"
    and "\<And>ts i. py_num (totalSamples (dataStatistics t)) = Inr ts \<Longrightarrow> i < length (data t)
            \<Longrightarrow> py_lt (NInt (int i)) (py_min (NInt 50) ts)"
proof -
  from run obtain stats ai aa imgs anns where stats: "dataStatistics t = stats"
    and aia: "all_images_annotations (dict_get d ''geocr:fileListing'' (JObj [])) = Inr (ai, aa)"
    and it: "py_iter ai = Inr imgs" "py_iter aa = Inr anns"
    and loop: "data_loop_top (totalSamples stats) 0 (zip imgs anns) = Inr (data t)"
    by (rule data_of_remap_top)
  from loop show ?thesis
  proof (cases rule: data_loop_top_cases)
    case none
    then show ?thesis by (intro that[OF aia it]) simp_all
  next
    case (some ts)
    define P where "P = (\<lambda>k. \<not> py_le (py_min (NInt 50) ts) (NInt (int k)))"
    define n where "n = length (takeWhile P [0 ..< length (zip imgs anns)])"
    have tw: "takeWhile P [0 ..< length (zip imgs anns)] = [0 ..< n]"
      unfolding n_def by (rule takeWhile_upt_prefix)
    have len: "length (data t) = n" using some(3) unfolding P_def[symmetric] tw by simp
    have all: "P i" if "i < n" for i
    proof -
      from that have "i \<in> set (takeWhile P [0 ..< length (zip imgs anns)])" unfolding tw by simp
      then show ?thesis by (rule set_takeWhileD[THEN conjunct2])
    qed
    have "n \<le> length (zip imgs anns)"
      unfolding n_def using length_takeWhile_le[of P "[0 ..< length (zip imgs anns)]"] by simp
    moreover have "n \<le> 50"
    proof (rule ccontr)
      assume "\<not> n \<le> 50"
      then have "P 50" using all[of 50] by simp
      then show False unfolding P_def using cap_le_50[of 50 ts] by simp
    qed
    ultimately have bound: "length (data t) \<le> min 50 (min (length imgs) (length anns))"
      unfolding len by simp
    show ?thesis
    proof (rule that[OF aia it bound])
      fix ts' i assume "py_num (totalSamples (dataStatistics t)) = Inr ts'" and "i < length (data t)"
      with some(2) stats len have "ts' = ts" "i < n" by simp_all
      with all[of i] show "py_lt (NInt (int i)) (py_min (NInt 50) ts')"
        unfolding P_def using not_py_le_iff[OF cap_not_nan] by simp
    qed
  qed
qed

lemma data_of_remap_bounds:
  assumes run: "remap (JObj d) = (ws, Inr t)"
  obtains (no_listing) "\<not> truthy (dict_get d ''geocr:fileListing'' (JObj []))" and "data t = []"
  | (listing) ai aa imgs anns where
      "all_images_annotations (dict_get d ''geocr:fileListing'' (JObj [])) = Inr (ai, aa)"
    and "py_iter ai = Inr imgs" and "py_iter aa = Inr anns"
    and "truthy (dict_get d ''geocr:fileListing'' (JObj []))"
    and "length (data t) \<le> min 50 (min (length imgs) (length anns))"
    and "\<And>ts. py_num (totalSamples (dataStatistics t)) = Inr ts \<Longrightarrow> py_lt (NInt 0) ts
            \<Longrightarrow> py_le (NInt (int (length (data t)))) (py_min (NInt 50) ts)"
proof -
  from run obtain stats w4 where stats: "dataStatistics t = stats"
    and fl: "file_listing_data (totalSamples stats) (dict_get d ''geocr:fileListing'' (JObj []))
               = (w4, Inr (data t))"
    by (rule data_of_remap)
  from fl show ?thesis
  proof (cases rule: file_listing_data_cases)
    case no_listing
    then show ?thesis by (intro that(1))
  next
    case (no_pairs ai aa imgs anns)
    show ?thesis
      by (rule that(2)[OF no_pairs(2-4) no_pairs(1)]) (simp_all add: no_pairs zero_le_cap)
  next
    case (pairs ai aa imgs anns ts stop)
    define m where "m = min (length imgs) (length anns)"
    have len: "length (data t) \<le> nat stop"
      using pairs(8) length_filter_upt by simp
    have "stop \<le> int m" using pairs(7) unfolding m_def by (rule range_stop_le_pairs)
    moreover have "stop \<le> 50" using pairs(7) by (rule range_stop_le_50)
    ultimately have "nat stop \<le> m" "nat stop \<le> 50" by simp_all
    with len have "length (data t) \<le> m" "length (data t) \<le> 50" by simp_all
    then have bound: "length (data t) \<le> min 50 (min (length imgs) (length anns))"
      unfolding m_def by simp
    show ?thesis
    proof (rule that(2)[OF pairs(2-4) pairs(1) bound])
      fix ts' assume "py_num (totalSamples (dataStatistics t)) = Inr ts'" and pos: "py_lt (NInt 0) ts'"
      with pairs(6) stats have eq: "ts' = ts" by simp
      have cap: "py_le (NInt stop) (py_min (NInt 50) ts')"
        using pos pairs(7) unfolding eq by (rule range_stop_positive)
      show "py_le (NInt (int (length (data t)))) (py_min (NInt 50) ts')"
      proof (cases "0 \<le> stop")
        case True
        with len have "int (length (data t)) \<le> stop" by simp
        with cap show ?thesis by (rule py_le_mono)
      next
        case False
        with len have "length (data t) = 0" by simp
        with pos show ?thesis by (simp add: zero_le_cap)
      qed
    qed
  qed
qed


subsection \<open>The cap on the number of entries\<close>

text \<open>
  C1, as stated, does not hold: \<^verbatim>\<open>totalSamples\<close> may be a float. The script at the top
  of \<^verbatim>\<open>OGC-TDML to GeoCroissant Support/\<close> leaves its loop at the first index \<^verbatim>\<open>i\<close>
  with \<^verbatim>\<open>i >= min(50, total_samples)\<close>; with five pairs and \<^verbatim>\<open>totalSamples\<close> 2.5 it
  emits the entries of the indices 0, 1 and 2, and 3 exceeds \<^verbatim>\<open>min(50, 2.5)\<close>. The
  converter in \<^verbatim>\<open>GeoCroissant to OGC-TDML/\<close> raises \<^verbatim>\<open>TypeError\<close> on that document,
  at \<^verbatim>\<open>range(2.5)\<close>.
\<close>

theorem cap_law_counterexample:
  "map_sum id (totalSamples \<circ> dataStatistics) (remap_top (JObj doc_fraction))
     = Inr (JFloat (Finite (5 / 2) ''2.5''))
   \<and> py_lt (NInt 0) (NFloat (Finite (5 / 2) ''2.5''))
   \<and> map_sum id (length \<circ> data) (remap_top (JObj doc_fraction)) = Inr 3
   \<and> py_lt (py_min (NInt 50) (NFloat (Finite (5 / 2) ''2.5''))) (NInt 3)
   \<and> snd (remap (JObj doc_fraction)) = Inl TypeError"
  by code_simp

text \<open>
  C1, amended. Whenever either script produces its document, the number of data entries
  is at most \<^verbatim>\<open>min(50, min(len(all_images), len(all_annotations)))\<close> whatever
  \<^verbatim>\<open>totalSamples\<close> is, the two sequences being the train lists followed by the val
  lists, and with a falsy file listing there is no entry at all. When \<^verbatim>\<open>totalSamples\<close>
  is a positive number, every entry has a position below \<^verbatim>\<open>min(50, totalSamples)\<close>;
  the number of entries of the converter in \<^verbatim>\<open>GeoCroissant to OGC-TDML/\<close> is then at
  most \<^verbatim>\<open>min(50, totalSamples)\<close>, and so is that of the other script when
  \<^verbatim>\<open>totalSamples\<close> is an integer.
\<close>

theorem cap_law:
  assumes "remap (JObj d) = (ws, Inr t) \<or> remap_top (JObj d) = Inr t"
  shows "(\<forall>ts. py_num (totalSamples (dataStatistics t)) = Inr ts \<and> py_lt (NInt 0) ts
              \<longrightarrow> (\<forall>i<length (data t). py_lt (NInt (int i)) (py_min (NInt 50) ts))
                \<and> (remap (JObj d) = (ws, Inr t)
                     \<longrightarrow> py_le (NInt (int (length (data t)))) (py_min (NInt 50) ts)))
       \<and> (\<forall>k. py_num (totalSamples (dataStatistics t)) = Inr (NInt k) \<and> 0 < k
              \<longrightarrow> int (length (data t)) \<le> min 50 k)
       \<and> (\<forall>ai aa n_images n_annotations.
              all_images_annotations (dict_get d ''geocr:fileListing'' (JObj [])) = Inr (ai, aa)
              \<and> py_len ai = Inr n_images \<and> py_len aa = Inr n_annotations
              \<longrightarrow> length (data t) \<le> min 50 (min n_images n_annotations))
       \<and> (\<not> truthy (dict_get d ''geocr:fileListing'' (JObj [])) \<longrightarrow> data t = [])"
proof -
  have below: "\<forall>i<length (data t). py_lt (NInt (int i)) (py_min (NInt 50) ts)"
    and nested: "remap (JObj d) = (ws, Inr t)
                   \<longrightarrow> py_le (NInt (int (length (data t)))) (py_min (NInt 50) ts)"
    if ts: "py_num (totalSamples (dataStatistics t)) = Inr ts" and pos: "py_lt (NInt 0) ts" for ts
  proof -
    have le: "py_le (NInt (int (length (data t)))) (py_min (NInt 50) ts)"
      if "remap (JObj d) = (ws, Inr t)"
      using that
    proof (cases rule: data_of_remap_bounds)
      case no_listing
      with pos show ?thesis by (simp add: zero_le_cap)
    next
      case (listing ai aa imgs anns)
      from listing(6)[OF ts pos] show ?thesis .
    qed
    then show "remap (JObj d) = (ws, Inr t)
                 \<longrightarrow> py_le (NInt (int (length (data t)))) (py_min (NInt 50) ts)"
      by blast
    from assms show "\<forall>i<length (data t). py_lt (NInt (int i)) (py_min (NInt 50) ts)"
    proof
      assume "remap (JObj d) = (ws, Inr t)"
      then have cap: "py_le (NInt (int (length (data t)))) (py_min (NInt 50) ts)" by (rule le)
      show ?thesis
      proof (intro allI impI)
        fix i assume "i < length (data t)"
        then have "py_le (NInt (int (Suc i))) (py_min (NInt 50) ts)"
          using py_le_mono[OF cap, of "int (Suc i)"] by simp
        then have "\<not> py_le (py_min (NInt 50) ts) (NInt (int i))"
          unfolding py_le_def by (cases "num_value (py_min (NInt 50) ts)") auto
        then show "py_lt (NInt (int i)) (py_min (NInt 50) ts)"
          using not_py_le_iff[OF cap_not_nan] by simp
      qed
    next
      assume "remap_top (JObj d) = Inr t"
      then show ?thesis
      proof (rule data_of_remap_top_bounds)
        fix ai aa imgs anns
        assume "\<And>ts i. py_num (totalSamples (dataStatistics t)) = Inr ts \<Longrightarrow> i < length (data t)
            \<Longrightarrow> py_lt (NInt (int i)) (py_min (NInt 50) ts)"
        from this[OF ts] show ?thesis by blast
      qed
    qed
  qed
  have ints: "int (length (data t)) \<le> min 50 k"
    if ts: "py_num (totalSamples (dataStatistics t)) = Inr (NInt k)" and pos: "0 < k" for k
  proof (cases "length (data t)")
    case 0
    with pos show ?thesis by simp
  next
    case (Suc n)
    from pos have "py_lt (NInt 0) (NInt k)" by simp
    from below[OF ts this] Suc have "py_lt (NInt (int n)) (py_min (NInt 50) (NInt k))" by simp
    with Suc show ?thesis by simp
  qed
  have pairs: "length (data t) \<le> min 50 (min n_images n_annotations)"
    if aia: "all_images_annotations (dict_get d ''geocr:fileListing'' (JObj [])) = Inr (ai, aa)"
      and ni: "py_len ai = Inr n_images" and na: "py_len aa = Inr n_annotations"
    for ai aa n_images n_annotations
    using assms
  proof
    assume "remap (JObj d) = (ws, Inr t)"
    then show ?thesis
    proof (cases rule: data_of_remap_bounds)
      case no_listing
      then show ?thesis by simp
    next
      case (listing ai' aa' imgs anns)
      with aia ni na have "n_images = length imgs" "n_annotations = length anns"
        by (simp_all add: py_iter_len)
      with listing(5) show ?thesis by simp
    qed
  next
    assume "remap_top (JObj d) = Inr t"
    then show ?thesis
    proof (rule data_of_remap_top_bounds)
      fix ai' aa' imgs anns
      assume "all_images_annotations (dict_get d ''geocr:fileListing'' (JObj [])) = Inr (ai', aa')"
        and "py_iter ai' = Inr imgs" and "py_iter aa' = Inr anns"
        and le: "length (data t) \<le> min 50 (min (length imgs) (length anns))"
      with aia ni na have "n_images = length imgs" "n_annotations = length anns"
        by (simp_all add: py_iter_len)
      with le show ?thesis by simp
    qed
  qed
  have empty: "data t = []" if falsy: "\<not> truthy (dict_get d ''geocr:fileListing'' (JObj []))"
    using assms
  proof
    assume "remap (JObj d) = (ws, Inr t)"
    then show ?thesis
    proof (cases rule: data_of_remap_bounds)
      case no_listing
      then show ?thesis by simp
    next
      case (listing ai' aa' imgs anns)
      with falsy show ?thesis by simp
    qed
  next
    assume "remap_top (JObj d) = Inr t"
    then show ?thesis
    proof (rule data_of_remap_top_bounds)
      fix ai aa imgs anns
      assume aia: "all_images_annotations (dict_get d ''geocr:fileListing'' (JObj [])) = Inr (ai, aa)"
        and it: "py_iter ai = Inr imgs"
        and le: "length (data t) \<le> min 50 (min (length imgs) (length anns))"
      from aia falsy have "ai = JArr []" using all_images_annotations_empty by blast
      with it le show ?thesis by auto
    qed
  qed
  from below nested ints pairs empty show ?thesis by blast
qed

text \<open>
  Five pairs and \<^verbatim>\<open>totalSamples\<close> 2: two entries from either script. Five pairs and
  \<^verbatim>\<open>totalSamples\<close> 2.5: the last of the three entries of the other script is at
  position 2, below 2.5.
\<close>

theorem cap_law_witness:
  "remap (JObj doc_capped)
     = (fst (remap (JObj doc_capped)), Inr (projr (snd (remap (JObj doc_capped)))))
   \<and> py_num (totalSamples (dataStatistics (projr (snd (remap (JObj doc_capped))))))
       = Inr (NInt 2)
   \<and> int (length (data (projr (snd (remap (JObj doc_capped)))))) \<le> min 50 2
   \<and> length (data (projr (snd (remap (JObj doc_capped))))) = 2
   \<and> remap_top (JObj doc_capped) = Inr (projr (remap_top (JObj doc_capped)))
   \<and> int (length (data (projr (remap_top (JObj doc_capped))))) \<le> min 50 2
   \<and> remap_top (JObj doc_fraction) = Inr (projr (remap_top (JObj doc_fraction)))
   \<and> length (data (projr (remap_top (JObj doc_fraction)))) = 3
   \<and> py_lt (NInt 2) (py_min (NInt 50) (NFloat (Finite (5 / 2) ''2.5'')))"
proof -
  have run: "remap (JObj doc_capped)
     = (fst (remap (JObj doc_capped)), Inr (projr (snd (remap (JObj doc_capped)))))"
    by code_simp
  have ts: "py_num (totalSamples (dataStatistics (projr (snd (remap (JObj doc_capped))))))
              = Inr (NInt 2)"
    by code_simp
  have le: "int (length (data (projr (snd (remap (JObj doc_capped)))))) \<le> min 50 2"
    using cap_law [OF disjI1 [OF run], THEN conjunct2, THEN conjunct1, rule_format, of 2] ts
    by simp
  have two: "length (data (projr (snd (remap (JObj doc_capped))))) = 2"
    by code_simp
  have run_top: "remap_top (JObj doc_capped) = Inr (projr (remap_top (JObj doc_capped)))"
    by code_simp
  have ts_top: "py_num (totalSamples (dataStatistics (projr (remap_top (JObj doc_capped)))))
                  = Inr (NInt 2)"
    by code_simp
  have le_top: "int (length (data (projr (remap_top (JObj doc_capped))))) \<le> min 50 2"
    using cap_law [OF disjI2 [OF run_top], THEN conjunct2, THEN conjunct1, rule_format, of 2]
      ts_top
    by simp
  have run_fr: "remap_top (JObj doc_fraction) = Inr (projr (remap_top (JObj doc_fraction)))"
    by code_simp
  have ts_fr: "py_num (totalSamples (dataStatistics (projr (remap_top (JObj doc_fraction)))))
                 = Inr (NFloat (Finite (5 / 2) ''2.5''))"
    by code_simp
  have pos_fr: "py_lt (NInt 0) (NFloat (Finite (5 / 2) ''2.5''))"
    by code_simp
  have three: "length (data (projr (remap_top (JObj doc_fraction)))) = 3"
    by code_simp
  have "\<forall>i<length (data (projr (remap_top (JObj doc_fraction)))).
          py_lt (NInt (int i)) (py_min (NInt 50) (NFloat (Finite (5 / 2) ''2.5'')))"
    using cap_law [OF disjI2 [OF run_fr], THEN conjunct1, rule_format,
                   OF conjI [OF ts_fr pos_fr], THEN conjunct1] .
  then have below: "py_lt (NInt 2) (py_min (NInt 50) (NFloat (Finite (5 / 2) ''2.5'')))"
    unfolding three by (metis int_ops(3) lessI numeral_2_eq_2 numeral_3_eq_3)
  from run ts le two run_top le_top run_fr three below show ?thesis by blast
qed


subsection \<open>Decimal strings\<close>

text \<open>\<open>str_nat\<close> is unfolded by hand: its equation rewrites any of its own instances.\<close>

declare str_nat.simps [simp del]

lemma of_char_digit: "n < 10 \<Longrightarrow> of_char (digit_char n) = 48 + n"
  by (simp add: digit_char_def)

lemma str_nat_value: "foldl (\<lambda>a c. 10 * a + (of_char c - 48)) 0 (str_nat n) = n"
proof (induction n rule: str_nat.induct)
  case (1 n)
  show ?case
  proof (cases "n < 10")
    case True
    then have "str_nat n = [digit_char n]" by (subst str_nat.simps) simp
    with True show ?thesis by (simp add: of_char_digit)
  next
    case False
    then have "str_nat n = str_nat (n div 10) @ [digit_char (n mod 10)]"
      by (subst str_nat.simps) simp
    then have "foldl (\<lambda>a c. 10 * a + (of_char c - 48)) 0 (str_nat n)
                 = 10 * (n div 10) + (of_char (digit_char (n mod 10)) - 48)"
      using "1.IH"[OF False] by simp
    then show ?thesis by (simp add: of_char_digit)
  qed
qed

lemma str_nat_inj: "str_nat m = str_nat n \<longleftrightarrow> m = n"
  by (metis str_nat_value)

lemma entry_id_make [simp]:
  "entry_id (make_data_entry ety lty i img msk) = ''data_'' @ str_nat i"
  "dataUrl (make_data_entry ety lty i img msk) = [img]"
  "map imageUrl (labels (make_data_entry ety lty i img msk)) = [[msk]]"
  by (simp_all add: make_data_entry_def)

lemma range_stop_int:
  "py_range_arg (py_min (max_samples (NInt k) m) (NInt (int m))) = Inr stop
     \<longleftrightarrow> stop = min (if 0 < k then min 50 k else min 50 (int m)) (int m)"
  unfolding max_samples_int py_min_int by auto

subsection \<open>Identifiers and label URLs\<close>

text \<open>
  C2, as stated, does not hold: in the converter in \<^verbatim>\<open>GeoCroissant to OGC-TDML/\<close> the id
  is built from the loop index \<^verbatim>\<open>i\<close>, which also counts the pairs that were skipped.
  With the image URL of the second of three pairs empty, the two entries emitted are
  \<^verbatim>\<open>data_0\<close> and \<^verbatim>\<open>data_2\<close>.
\<close>

theorem entry_ids_counterexample:
  "map_sum id (map entry_id \<circ> data) (snd (remap (JObj doc_skip))) = Inr [''data_0'', ''data_2'']"
  by code_simp

text \<open>
  C2, amended. In both scripts the id of an emitted entry is \<^verbatim>\<open>data_<i>\<close> for the
  index \<^verbatim>\<open>i\<close> of its pair in the combined source lists (train followed by val), and
  the \<^verbatim>\<open>imageUrl\<close> of its label is the annotation URL at that index. The converter in
  \<^verbatim>\<open>GeoCroissant to OGC-TDML/\<close> emits, in increasing order, the indices below
  \<^verbatim>\<open>min(max_samples, min_pairs)\<close>, the argument of its \<^verbatim>\<open>range\<close>, whose two URLs
  are truthy; the other script emits every index below the number of pairs up to the first
  one that has reached \<^verbatim>\<open>min(50, totalSamples)\<close>. So the ids are \<^verbatim>\<open>data_0\<close>,
  \<^verbatim>\<open>data_1\<close>, ... without gaps exactly when no pair before them was skipped. The
  third part spells the two index lists out for an integer \<^verbatim>\<open>totalSamples\<close>.
\<close>

theorem entry_ids_are_source_indices:
  assumes "all_images_annotations (dict_get d ''geocr:fileListing'' (JObj [])) = Inr (ai, aa)"
    and "py_iter ai = Inr imgs" and "py_iter aa = Inr anns"
    and "py_num (totalSamples (dataStatistics t)) = Inr ts"
  shows "(remap (JObj d) = (ws, Inr t) \<longrightarrow>
            (\<exists>stop. py_range_arg (py_min (max_samples ts (min (length imgs) (length anns)))
                                        (NInt (int (min (length imgs) (length anns))))) = Inr stop
               \<and> (let emitted = filter (\<lambda>i. truthy (imgs ! i) \<and> truthy (anns ! i))
                                   [0 ..< nat stop]
                  in map entry_id (data t) = map (\<lambda>i. ''data_'' @ str_nat i) emitted
                   \<and> map (\<lambda>e. map imageUrl (labels e)) (data t)
                       = map (\<lambda>i. [[anns ! i]]) emitted)))
       \<and> (remap_top (JObj d) = Inr t \<longrightarrow>
            (let emitted = takeWhile (\<lambda>i. \<not> py_le (py_min (NInt 50) ts) (NInt (int i)))
                             [0 ..< min (length imgs) (length anns)]
             in map entry_id (data t) = map (\<lambda>i. ''data_'' @ str_nat i) emitted
              \<and> map (\<lambda>e. map imageUrl (labels e)) (data t) = map (\<lambda>i. [[anns ! i]]) emitted))
       \<and> (\<forall>k. ts = NInt k \<longrightarrow>
            (remap (JObj d) = (ws, Inr t) \<longrightarrow>
               (let m = min (length imgs) (length anns);
                    emitted = filter (\<lambda>i. truthy (imgs ! i) \<and> truthy (anns ! i))
                                [0 ..< nat (min (if 0 < k then min 50 k else min 50 (int m))
                                                (int m))]
                in map entry_id (data t) = map (\<lambda>i. ''data_'' @ str_nat i) emitted
                 \<and> map (\<lambda>e. map imageUrl (labels e)) (data t)
                     = map (\<lambda>i. [[anns ! i]]) emitted))
          \<and> (remap_top (JObj d) = Inr t \<longrightarrow>
               (let emitted = [0 ..< min (min (length imgs) (length anns)) (nat (min 50 k))]
                in map entry_id (data t) = map (\<lambda>i. ''data_'' @ str_nat i) emitted
                 \<and> map (\<lambda>e. map imageUrl (labels e)) (data t)
                     = map (\<lambda>i. [[anns ! i]]) emitted)))"
proof -
  define m where "m = min (length imgs) (length anns)"
  define kept where "kept = (\<lambda>i. truthy (imgs ! i) \<and> truthy (anns ! i))"
  define below where "below = (\<lambda>i. \<not> py_le (py_min (NInt 50) ts) (NInt (int i)))"
  have nested: "\<exists>stop. py_range_arg (py_min (max_samples ts m) (NInt (int m))) = Inr stop
                  \<and> map entry_id (data t) = map (\<lambda>i. ''data_'' @ str_nat i) (filter kept [0 ..< nat stop])
                  \<and> map (\<lambda>e. map imageUrl (labels e)) (data t)
                      = map (\<lambda>i. [[anns ! i]]) (filter kept [0 ..< nat stop])"
    if run: "remap (JObj d) = (ws, Inr t)"
  proof -
    from data_of_remap_listing[OF run assms]
    obtain stop where stop: "py_range_arg (py_min (max_samples ts m) (NInt (int m))) = Inr stop"
      and dat: "data t = map (\<lambda>i. make_data_entry ''EOTrainingData'' ''PixelLabel'' i
                                      (imgs ! i) (anns ! i))
                           (filter kept [0 ..< nat stop])"
      unfolding m_def kept_def by blast
    from dat have "map entry_id (data t)
                     = map (\<lambda>i. ''data_'' @ str_nat i) (filter kept [0 ..< nat stop])"
      and "map (\<lambda>e. map imageUrl (labels e)) (data t)
             = map (\<lambda>i. [[anns ! i]]) (filter kept [0 ..< nat stop])"
      by (simp_all add: comp_def)
    with stop show ?thesis by blast
  qed
  have top: "map entry_id (data t) = map (\<lambda>i. ''data_'' @ str_nat i) (takeWhile below [0 ..< m])
           \<and> map (\<lambda>e. map imageUrl (labels e)) (data t)
               = map (\<lambda>i. [[anns ! i]]) (takeWhile below [0 ..< m])"
    if run: "remap_top (JObj d) = Inr t"
    using data_of_remap_top_listing[OF run assms] unfolding m_def below_def
    by (simp add: comp_def)
  have nested_int: "map entry_id (data t)
        = map (\<lambda>i. ''data_'' @ str_nat i)
            (filter kept [0 ..< nat (min (if 0 < k then min 50 k else min 50 (int m)) (int m))])
      \<and> map (\<lambda>e. map imageUrl (labels e)) (data t)
        = map (\<lambda>i. [[anns ! i]])
            (filter kept [0 ..< nat (min (if 0 < k then min 50 k else min 50 (int m)) (int m))])"
    if run: "remap (JObj d) = (ws, Inr t)" and k: "ts = NInt k" for k
    using nested[OF run] unfolding k range_stop_int by blast
  have top_int: "map entry_id (data t) = map (\<lambda>i. ''data_'' @ str_nat i) [0 ..< min m (nat (min 50 k))]
           \<and> map (\<lambda>e. map imageUrl (labels e)) (data t)
               = map (\<lambda>i. [[anns ! i]]) [0 ..< min m (nat (min 50 k))]"
    if run: "remap_top (JObj d) = Inr t" and k: "ts = NInt k" for k
    using top[OF run] unfolding below_def k takeWhile_int_cap .
  from nested top nested_int top_int show ?thesis
    unfolding Let_def m_def[symmetric] kept_def[symmetric] below_def[symmetric] by blast
qed

text \<open>
  Three training and two validation pairs with non-empty URLs and no \<^verbatim>\<open>totalSamples\<close>:
  five entries \<^verbatim>\<open>data_0\<close> to \<^verbatim>\<open>data_4\<close>, each label carrying the annotation URL of
  the same combined index.
\<close>

theorem entry_ids_are_source_indices_witness:
  "remap (JObj doc_pairs) = (fst (remap (JObj doc_pairs)), Inr (projr (snd (remap (JObj doc_pairs)))))
   \<and> map entry_id (data (projr (snd (remap (JObj doc_pairs)))))
       = [''data_0'', ''data_1'', ''data_2'', ''data_3'', ''data_4'']
   \<and> map (\<lambda>e. map imageUrl (labels e)) (data (projr (snd (remap (JObj doc_pairs)))))
       = [[[JStr ''t0.mask.tif'']], [[JStr ''t1.mask.tif'']], [[JStr ''t2.mask.tif'']],
          [[JStr ''v0.mask.tif'']], [[JStr ''v1.mask.tif'']]]"
proof -
  let ?imgs = "map JStr [''t0.tif'', ''t1.tif'', ''t2.tif'', ''v0.tif'', ''v1.tif'']"
  let ?anns = "map JStr [''t0.mask.tif'', ''t1.mask.tif'', ''t2.mask.tif'',
                         ''v0.mask.tif'', ''v1.mask.tif'']"
  let ?emitted = "filter (\<lambda>i. truthy (?imgs ! i) \<and> truthy (?anns ! i))
                    [0 ..< nat (min (if 0 < (0::int) then min 50 0
                                     else min 50 (int (min (length ?imgs) (length ?anns))))
                                    (int (min (length ?imgs) (length ?anns))))]"
  have run: "remap (JObj doc_pairs)
               = (fst (remap (JObj doc_pairs)), Inr (projr (snd (remap (JObj doc_pairs)))))"
    by code_simp
  have aia: "all_images_annotations (dict_get doc_pairs ''geocr:fileListing'' (JObj []))
               = Inr (JArr ?imgs, JArr ?anns)"
    by code_simp
  have ts: "py_num (totalSamples (dataStatistics (projr (snd (remap (JObj doc_pairs))))))
              = Inr (NInt 0)"
    by code_simp
  have "map entry_id (data (projr (snd (remap (JObj doc_pairs)))))
          = map (\<lambda>i. ''data_'' @ str_nat i) ?emitted
        \<and> map (\<lambda>e. map imageUrl (labels e)) (data (projr (snd (remap (JObj doc_pairs)))))
          = map (\<lambda>i. [[?anns ! i]]) ?emitted"
    using entry_ids_are_source_indices
            [OF aia py_iter.simps(1) py_iter.simps(1) ts, THEN conjunct2, THEN conjunct2,
             rule_format, OF refl, THEN conjunct1, rule_format, OF run]
    unfolding Let_def .
  moreover have "map (\<lambda>i. ''data_'' @ str_nat i) ?emitted
                   = [''data_0'', ''data_1'', ''data_2'', ''data_3'', ''data_4'']"
    by code_simp
  moreover have "map (\<lambda>i. [[?anns ! i]]) ?emitted
                   = [[[JStr ''t0.mask.tif'']], [[JStr ''t1.mask.tif'']], [[JStr ''t2.mask.tif'']],
                      [[JStr ''v0.mask.tif'']], [[JStr ''v1.mask.tif'']]]"
    by code_simp
  ultimately show ?thesis using run by metis
qed


subsection \<open>Pairs with a missing URL\<close>

text \<open>
  C4, as stated, does not hold for the script at the top of
  \<^verbatim>\<open>OGC-TDML to GeoCroissant Support/\<close>: it has no check of the URLs, and with
  \<^verbatim>\<open>totalSamples\<close> 3 it emits all three pairs of the list, the one with the empty image
  URL included.
\<close>

theorem falsy_urls_counterexample:
  "map_sum id (map dataUrl \<circ> data) (remap_top (JObj doc_skip_total))
     = Inr [[JStr ''a.tif''], [JStr ''''], [JStr ''c.tif'']]"
  by code_simp

text \<open>
  C4, amended. In the converter in \<^verbatim>\<open>GeoCroissant to OGC-TDML/\<close>, every pair below
  \<^verbatim>\<open>min(max_samples, min_pairs)\<close>, the argument of its \<^verbatim>\<open>range\<close>, whose image URL
  and annotation URL are both truthy is emitted, and every pair below it with a falsy URL
  (empty string, \<^verbatim>\<open>null\<close>, ...) is skipped: a warning with its index is printed and no
  entry has its id. The other script checks no URL: whatever the first converter does
  with the document, it emits every pair up to its \<^verbatim>\<open>break\<close>, for an integer
  \<^verbatim>\<open>totalSamples\<close> that is every pair below \<^verbatim>\<open>min(50, totalSamples)\<close>.
\<close>

theorem falsy_urls_are_skipped:
  assumes "all_images_annotations (dict_get d ''geocr:fileListing'' (JObj [])) = Inr (ai, aa)"
    and "py_iter ai = Inr imgs" and "py_iter aa = Inr anns"
  shows "(\<forall>ws t ts. remap (JObj d) = (ws, Inr t)
                     \<and> py_num (totalSamples (dataStatistics t)) = Inr ts
            \<longrightarrow> (\<exists>stop. py_range_arg (py_min (max_samples ts (min (length imgs) (length anns)))
                                             (NInt (int (min (length imgs) (length anns)))))
                           = Inr stop
                    \<and> (\<forall>i<nat stop.
                          if truthy (imgs ! i) \<and> truthy (anns ! i)
                          then make_data_entry ''EOTrainingData'' ''PixelLabel'' i
                                 (imgs ! i) (anns ! i) \<in> set (data t)
                          else SkippingEntry i \<in> set ws
                               \<and> ''data_'' @ str_nat i \<notin> set (map entry_id (data t)))
                    \<and> length (data t)
                        = length (filter (\<lambda>i. truthy (imgs ! i) \<and> truthy (anns ! i))
                                    [0 ..< nat stop])))
       \<and> (\<forall>t ts. remap_top (JObj d) = Inr t
                  \<and> py_num (totalSamples (dataStatistics t)) = Inr ts
            \<longrightarrow> map dataUrl (data t)
                  = map (\<lambda>i. [imgs ! i])
                      (takeWhile (\<lambda>i. \<not> py_le (py_min (NInt 50) ts) (NInt (int i)))
                         [0 ..< min (length imgs) (length anns)]))
       \<and> (\<forall>t k. remap_top (JObj d) = Inr t
                 \<and> py_num (totalSamples (dataStatistics t)) = Inr (NInt k)
            \<longrightarrow> map dataUrl (data t)
                  = map (\<lambda>i. [imgs ! i])
                      [0 ..< min (min (length imgs) (length anns)) (nat (min 50 k))])"
proof -
  define m where "m = min (length imgs) (length anns)"
  define kept where "kept = (\<lambda>i. truthy (imgs ! i) \<and> truthy (anns ! i))"
  have nested: "\<exists>stop. py_range_arg (py_min (max_samples ts m) (NInt (int m))) = Inr stop
                  \<and> (\<forall>i<nat stop.
                        if kept i
                        then make_data_entry ''EOTrainingData'' ''PixelLabel'' i
                               (imgs ! i) (anns ! i) \<in> set (data t)
                        else SkippingEntry i \<in> set ws
                             \<and> ''data_'' @ str_nat i \<notin> set (map entry_id (data t)))
                  \<and> length (data t) = length (filter kept [0 ..< nat stop])"
    if run: "remap (JObj d) = (ws, Inr t)"
      and ts: "py_num (totalSamples (dataStatistics t)) = Inr ts" for ws t ts
  proof -
    from data_of_remap_listing[OF run assms ts]
    obtain stop where stop: "py_range_arg (py_min (max_samples ts m) (NInt (int m))) = Inr stop"
      and dat: "data t = map (\<lambda>i. make_data_entry ''EOTrainingData'' ''PixelLabel'' i
                                      (imgs ! i) (anns ! i))
                           (filter kept [0 ..< nat stop])"
      and skips: "set (map SkippingEntry (filter (\<lambda>i. \<not> kept i) [0 ..< nat stop])) \<subseteq> set ws"
      unfolding m_def kept_def by blast
    define n where "n = nat stop"
    have ids: "map entry_id (data t) = map (\<lambda>i. ''data_'' @ str_nat i) (filter kept [0 ..< n])"
      unfolding dat n_def by (simp add: comp_def)
    have each: "if kept i
                then make_data_entry ''EOTrainingData'' ''PixelLabel'' i (imgs ! i) (anns ! i)
                       \<in> set (data t)
                else SkippingEntry i \<in> set ws
                     \<and> ''data_'' @ str_nat i \<notin> set (map entry_id (data t))"
      if "i < n" for i
    proof (cases "kept i")
      case True
      with that have "i \<in> set (filter kept [0 ..< n])" by simp
      then show ?thesis unfolding dat n_def[symmetric] using True by (simp add: image_iff) blast
    next
      case False
      with that have "SkippingEntry i \<in> set (map SkippingEntry (filter (\<lambda>i. \<not> kept i) [0 ..< n]))"
        by simp
      with skips have "SkippingEntry i \<in> set ws" unfolding n_def by blast
      moreover have "''data_'' @ str_nat i \<notin> set (map entry_id (data t))"
        unfolding ids using False by (auto simp: str_nat_inj)
      ultimately show ?thesis using False by simp
    qed
    have len: "length (data t) = length (filter kept [0 ..< n])"
      unfolding dat n_def by simp
    from stop each len show ?thesis unfolding n_def by blast
  qed
  have top: "map dataUrl (data t)
               = map (\<lambda>i. [imgs ! i])
                   (takeWhile (\<lambda>i. \<not> py_le (py_min (NInt 50) ts) (NInt (int i))) [0 ..< m])"
    if run: "remap_top (JObj d) = Inr t"
      and ts: "py_num (totalSamples (dataStatistics t)) = Inr ts" for t ts
    using data_of_remap_top_listing[OF run assms ts] unfolding m_def by (simp add: comp_def)
  have top_int: "map dataUrl (data t) = map (\<lambda>i. [imgs ! i]) [0 ..< min m (nat (min 50 k))]"
    if run: "remap_top (JObj d) = Inr t"
      and ts: "py_num (totalSamples (dataStatistics t)) = Inr (NInt k)" for t k
    using top[OF run ts] unfolding takeWhile_int_cap .
  show ?thesis
    unfolding m_def[symmetric]
  proof (intro conjI allI impI)
    fix ws t ts
    assume "remap (JObj d) = (ws, Inr t) \<and> py_num (totalSamples (dataStatistics t)) = Inr ts"
    then have "remap (JObj d) = (ws, Inr t)" "py_num (totalSamples (dataStatistics t)) = Inr ts"
      by simp_all
    from nested[OF this, unfolded kept_def]
    show "\<exists>stop. py_range_arg (py_min (max_samples ts m) (NInt (int m))) = Inr stop
                    \<and> (\<forall>i<nat stop.
                          if truthy (imgs ! i) \<and> truthy (anns ! i)
                          then make_data_entry ''EOTrainingData'' ''PixelLabel'' i
                                 (imgs ! i) (anns ! i) \<in> set (data t)
                          else SkippingEntry i \<in> set ws
                               \<and> ''data_'' @ str_nat i \<notin> set (map entry_id (data t)))
                    \<and> length (data t)
                        = length (filter (\<lambda>i. truthy (imgs ! i) \<and> truthy (anns ! i))
                                    [0 ..< nat stop])" .
  next
    fix t ts
    assume "remap_top (JObj d) = Inr t \<and> py_num (totalSamples (dataStatistics t)) = Inr ts"
    then have "remap_top (JObj d) = Inr t" "py_num (totalSamples (dataStatistics t)) = Inr ts"
      by simp_all
    then show "map dataUrl (data t)
                 = map (\<lambda>i. [imgs ! i])
                     (takeWhile (\<lambda>i. \<not> py_le (py_min (NInt 50) ts) (NInt (int i))) [0 ..< m])"
      by (rule top)
  next
    fix t k
    assume "remap_top (JObj d) = Inr t
              \<and> py_num (totalSamples (dataStatistics t)) = Inr (NInt k)"
    then have "remap_top (JObj d) = Inr t"
      "py_num (totalSamples (dataStatistics t)) = Inr (NInt k)"
      by simp_all
    then show "map dataUrl (data t) = map (\<lambda>i. [imgs ! i]) [0 ..< min m (nat (min 50 k))]"
      by (rule top_int)
  qed
qed

text \<open>
  The pair list \<^verbatim>\<open>[("a.tif","a.mask.tif"), ("","b.mask.tif"), ("c.tif","c.mask.tif")]\<close>
  without \<^verbatim>\<open>totalSamples\<close>: two entries, the second pair skipped with a warning. With
  \<^verbatim>\<open>totalSamples\<close> 3 the other script emits the three pairs.
\<close>

theorem falsy_urls_are_skipped_witness:
  "remap (JObj doc_skip) = (fst (remap (JObj doc_skip)), Inr (projr (snd (remap (JObj doc_skip)))))
   \<and> length (data (projr (snd (remap (JObj doc_skip))))) = 2
   \<and> make_data_entry ''EOTrainingData'' ''PixelLabel'' 2 (JStr ''c.tif'') (JStr ''c.mask.tif'')
        \<in> set (data (projr (snd (remap (JObj doc_skip)))))
   \<and> SkippingEntry 1 \<in> set (fst (remap (JObj doc_skip)))
   \<and> ''data_1'' \<notin> set (map entry_id (data (projr (snd (remap (JObj doc_skip))))))
   \<and> remap_top (JObj doc_skip_total) = Inr (projr (remap_top (JObj doc_skip_total)))
   \<and> map dataUrl (data (projr (remap_top (JObj doc_skip_total))))
       = [[JStr ''a.tif''], [JStr ''''], [JStr ''c.tif'']]"
proof -
  let ?imgs = "map JStr [''a.tif'', '''', ''c.tif'']"
  let ?anns = "map JStr [''a.mask.tif'', ''b.mask.tif'', ''c.mask.tif'']"
  let ?t = "projr (snd (remap (JObj doc_skip)))"
  let ?ws = "fst (remap (JObj doc_skip))"
  have run: "remap (JObj doc_skip) = (?ws, Inr ?t)"
    by code_simp
  have aia: "all_images_annotations (dict_get doc_skip ''geocr:fileListing'' (JObj []))
               = Inr (JArr ?imgs, JArr ?anns)"
    by code_simp
  have ts: "py_num (totalSamples (dataStatistics ?t)) = Inr (NInt 0)"
    by code_simp
  have stop3: "py_range_arg (py_min (max_samples (NInt 0) (min (length ?imgs) (length ?anns)))
                                    (NInt (int (min (length ?imgs) (length ?anns))))) = Inr 3"
    by code_simp
  note inst = falsy_urls_are_skipped [OF aia py_iter.simps(1) py_iter.simps(1)]
  from inst [THEN conjunct1, rule_format, OF conjI [OF run ts]]
  obtain stop where
    stop: "py_range_arg (py_min (max_samples (NInt 0) (min (length ?imgs) (length ?anns)))
                                (NInt (int (min (length ?imgs) (length ?anns))))) = Inr stop"
    and each: "\<forall>i<nat stop.
                 if truthy (?imgs ! i) \<and> truthy (?anns ! i)
                 then make_data_entry ''EOTrainingData'' ''PixelLabel'' i (?imgs ! i) (?anns ! i)
                        \<in> set (data ?t)
                 else SkippingEntry i \<in> set ?ws
                      \<and> ''data_'' @ str_nat i \<notin> set (map entry_id (data ?t))"
    and len: "length (data ?t)
                = length (filter (\<lambda>i. truthy (?imgs ! i) \<and> truthy (?anns ! i)) [0 ..< nat stop])"
    by blast
  from stop stop3 have n: "nat stop = 3" by simp
  have one: "\<not> (truthy (?imgs ! 1) \<and> truthy (?anns ! 1))" "''data_'' @ str_nat 1 = ''data_1''"
    by code_simp+
  have two: "truthy (?imgs ! 2) \<and> truthy (?anns ! 2)"
    "?imgs ! 2 = JStr ''c.tif''" "?anns ! 2 = JStr ''c.mask.tif''"
    by code_simp+
  have flt: "length (filter (\<lambda>i. truthy (?imgs ! i) \<and> truthy (?anns ! i)) [0 ..< 3]) = 2"
    by code_simp
  from each[unfolded n, rule_format, of 1] one
  have skipped: "SkippingEntry 1 \<in> set ?ws \<and> ''data_1'' \<notin> set (map entry_id (data ?t))"
    by simp
  from each[unfolded n, rule_format, of 2] two
  have kept: "make_data_entry ''EOTrainingData'' ''PixelLabel'' 2 (JStr ''c.tif'') (JStr ''c.mask.tif'')
          \<in> set (data ?t)"
    by simp
  from len flt have len2: "length (data ?t) = 2" unfolding n by simp
  let ?t' = "projr (remap_top (JObj doc_skip_total))"
  have aia': "all_images_annotations (dict_get doc_skip_total ''geocr:fileListing'' (JObj []))
               = Inr (JArr ?imgs, JArr ?anns)"
    by code_simp
  have run_top: "remap_top (JObj doc_skip_total) = Inr ?t'"
    by code_simp
  have ts_top: "py_num (totalSamples (dataStatistics ?t')) = Inr (NInt 3)"
    by code_simp
  have "map dataUrl (data ?t')
          = map (\<lambda>i. [?imgs ! i]) [0 ..< min (min (length ?imgs) (length ?anns)) (nat (min 50 3))]"
    using falsy_urls_are_skipped [OF aia' py_iter.simps(1) py_iter.simps(1),
            THEN conjunct2, THEN conjunct2, rule_format, OF conjI [OF run_top ts_top]] .
  also have "\<dots> = [[JStr ''a.tif''], [JStr ''''], [JStr ''c.tif'']]"
    by code_simp
  finally have urls: "map dataUrl (data ?t') = [[JStr ''a.tif''], [JStr ''''], [JStr ''c.tif'']]" .
  from run len2 kept skipped run_top urls show ?thesis by blast
qed

end
